theory Spec2Isabelle
  imports Main "HOL-Library.Log_Nat"
begin

section \<open>Python floats\<close>

text \<open>
  The pattern matcher of \<^verbatim>\<open>negocio/servicio_autenticacion.py\<close> computes on Python
  floats: the similarity is the true division of two ints, the threshold is a float field,
  and the timing check multiplies the float literals 0.6 and 1.4 with a float. A Python
  float is an IEEE 754 binary64 number. It is modelled by its value: a finite float is the
  rational it denotes, and the two infinities and NaN are values of their own. The two
  zeros are one value here; the code only compares floats, and every comparison of Python
  treats \<^verbatim>\<open>-0.0\<close> and \<^verbatim>\<open>0.0\<close> alike.
\<close>

datatype flotante = Finito rat | MasInf | MenosInf | NaN

definition dos_a :: "int \<Rightarrow> rat" where
  "dos_a e = (if 0 \<le> e then 2 ^ nat e else 1 / 2 ^ nat (- e))"

text \<open>
  \<open>exponente q\<close> is the integer \<open>e\<close> with \<open>2^e \<le> |q| < 2^(e+1)\<close>, for \<open>q \<noteq> 0\<close>: with
  \<open>|q| = a / b\<close>, the difference of the bit lengths of \<open>a\<close> and \<open>b\<close> is \<open>e\<close> or \<open>e + 1\<close>.
\<close>

definition exponente :: "rat \<Rightarrow> int" where
  "exponente q =
     (let (a, b) = quotient_of \<bar>q\<bar>;
          c = bitlen a - bitlen b
      in if dos_a c \<le> \<bar>q\<bar> then c else c - 1)"

definition entero_par_mas_cercano :: "rat \<Rightarrow> int" where
  "entero_par_mas_cercano k =
     (let f = \<lfloor>k\<rfloor>; d = k - of_int f
      in if d < 1 / 2 then f
         else if 1 / 2 < d then f + 1
         else if even f then f else f + 1)"

text \<open>
  Rounding of an exact result to binary64, to nearest with ties to even: 53 significant
  bits for a normal number, a fixed unit of \<open>2^-1074\<close> below \<open>2^-1022\<close>, and an infinity
  when the rounded magnitude reaches \<open>2^1024\<close>.
\<close>

definition magnitud_redondeada :: "rat \<Rightarrow> rat" where
  "magnitud_redondeada q =
     (let e = max (exponente q) (- 1022);
          ulp = dos_a (e - 52)
      in of_int (entero_par_mas_cercano (\<bar>q\<bar> / ulp)) * ulp)"

definition redondear :: "rat \<Rightarrow> flotante" where
  "redondear q =
     (if q = 0 then Finito 0
      else let v = magnitud_redondeada q
           in if dos_a 1024 \<le> v then (if 0 < q then MasInf else MenosInf)
              else Finito (if 0 < q then v else - v))"

text \<open>The comparisons \<^verbatim>\<open><\<close>, \<^verbatim>\<open><=\<close> and \<^verbatim>\<open>==\<close> of floats: all false on NaN.\<close>

fun fl_menor :: "flotante \<Rightarrow> flotante \<Rightarrow> bool" where
  "fl_menor NaN _ = False"
| "fl_menor _ NaN = False"
| "fl_menor (Finito a) (Finito b) = (a < b)"
| "fl_menor MenosInf MenosInf = False"
| "fl_menor MenosInf _ = True"
| "fl_menor _ MenosInf = False"
| "fl_menor MasInf _ = False"
| "fl_menor _ MasInf = True"

fun fl_igual :: "flotante \<Rightarrow> flotante \<Rightarrow> bool" where
  "fl_igual NaN _ = False"
| "fl_igual _ NaN = False"
| "fl_igual a b = (a = b)"

definition fl_menor_igual :: "flotante \<Rightarrow> flotante \<Rightarrow> bool" where
  "fl_menor_igual a b = (fl_menor a b \<or> fl_igual a b)"

text \<open>The product of two floats: the exact product rounded, and the IEEE special cases.\<close>

fun fl_signo :: "flotante \<Rightarrow> int" where
  "fl_signo (Finito a) = sgn \<lfloor>sgn a\<rfloor>"
| "fl_signo MasInf = 1"
| "fl_signo MenosInf = - 1"
| "fl_signo NaN = 0"

fun fl_mult :: "flotante \<Rightarrow> flotante \<Rightarrow> flotante" where
  "fl_mult NaN _ = NaN"
| "fl_mult _ NaN = NaN"
| "fl_mult (Finito a) (Finito b) = redondear (a * b)"
| "fl_mult x y =
     (let s = fl_signo x * fl_signo y
      in if s = 0 then NaN else if 0 < s then MasInf else MenosInf)"

text \<open>The float literals of the source, each the float nearest to its decimal.\<close>

definition lit_0_9 :: flotante where "lit_0_9 = redondear (9 / 10)"
definition lit_0_6 :: flotante where "lit_0_6 = redondear (6 / 10)"
definition lit_1_4 :: flotante where "lit_1_4 = redondear (14 / 10)"

section \<open>Data model\<close>

text \<open>
  The entities, enumerations, exceptions and repositories are imported by the service from
  \<^verbatim>\<open>negocio/enums.py\<close>, \<^verbatim>\<open>exceptions.py\<close>, \<^verbatim>\<open>modelos.py\<close> and \<^verbatim>\<open>repositorios.py\<close>.
  The records below have the attributes the service reads and writes. Fields of the PIN
  and of the pattern carry a prefix, since the credential, the PIN and the pattern share
  attribute names (\<^verbatim>\<open>estado\<close>, \<^verbatim>\<open>intentos_fallidos\<close>, \<^verbatim>\<open>secuencia_gestos\<close>).
\<close>

datatype EstadoCredencial = ACTIVA | EXPIRADA | BLOQUEADA | INACTIVA

datatype EstadoPin = ACTIVO | BLOQUEADO

type_synonym fecha = int

text \<open>A \<^verbatim>\<open>datetime\<close>: the day (its ordinal) and the time within the day, in microseconds.\<close>

record fecha_hora =
  dia :: fecha
  microsegundos :: nat

definition date :: "fecha_hora \<Rightarrow> fecha" where
  "date t = dia t"

record credencial_rfid =
  cedula_propietario :: string
  fecha_expiracion :: fecha
  estado :: EstadoCredencial
  intentos_fallidos :: int
  intentos_exitosos :: int
  ultimo_acceso :: "fecha_hora option"

record pin_gestual =
  pin_secuencia_gestos :: "int list"
  pin_estado :: EstadoPin
  pin_intentos_fallidos :: int

record patron_gestual =
  patron_secuencia_gestos :: "int list"
  patron_tiempos_entre_gestos :: "flotante list option"

record Acceso =
  id_acceso :: string
  cedula_usuario :: string
  id_area :: string
  fecha_entrada :: fecha_hora
  registro_exitoso_id :: string

text \<open>
  Modelled from the spec: the method \<^verbatim>\<open>esta_vigente\<close> of the credential, which lives in
  \<^verbatim>\<open>negocio/modelos.py\<close>. The spec: validity requires that the state is ACTIVE (not
  BLOCKED, INACTIVE or EXPIRED) and that the evaluation date is at most the expiration
  date.
\<close>

definition esta_vigente :: "credencial_rfid \<Rightarrow> fecha \<Rightarrow> bool" where
  "esta_vigente cred hoy \<longleftrightarrow> estado cred = ACTIVA \<and> hoy \<le> fecha_expiracion cred"

text \<open>
  The messages of \<^verbatim>\<open>AutenticacionError\<close>, one constructor for each \<^verbatim>\<open>raise\<close> of the
  service. The pattern mismatch message is an f-string over the similarity and the
  threshold; its constructor carries the two floats the message renders.
\<close>

datatype motivo =
    Rfid_no_corresponde
  | Rfid_invalida
  | Pin_bloqueado
  | Pin_incorrecto
  | Patron_no_coincide flotante flotante
  | Timings_fuera_de_tolerancia
  | Pin_incompleto
  | Patron_incompleto

datatype error =
    NoEncontrado
  | ValidacionError
  | AutenticacionError motivo
  | ZeroDivisionError
  | OverflowError

text \<open>
  The calls the service makes on its collaborators (the repositories, the two sensors and
  the actuator), in the order it makes them.
\<close>

datatype sensor_de = Sensor_pin | Sensor_patron

datatype llamada =
    Obtener_por_serial string
  | Obtener_por_area string
  | Obtener_por_usuario string
  | Capturar_secuencia sensor_de nat "int option"
  | Indicar_exito
  | Abrir_puerta
  | Agregar Acceso

text \<open>
  The service with its seven fields. A repository of entities is a map from the key to the
  entity; the service mutates the entity it obtained, which is an update of the map at
  that key. Modelled from the spec: a lookup of an absent key fails with NotFound, and
  \<^verbatim>\<open>agregar\<close> persists the record (here: appends it). \<open>llamadas\<close> is the log of the calls
  on the collaborators.
\<close>

record servicio =
  repo_rfid :: "string \<rightharpoonup> credencial_rfid"
  repo_pins :: "string \<rightharpoonup> pin_gestual"
  repo_patrones :: "string \<rightharpoonup> patron_gestual"
  repo_accesos :: "Acceso list"
  max_intentos_rfid :: int
  max_intentos_pin :: int
  umbral_similitud_patron :: flotante
  llamadas :: "llamada list"

definition llamar :: "llamada \<Rightarrow> servicio \<Rightarrow> servicio" where
  "llamar c s = s\<lparr>llamadas := llamadas s @ [c]\<rparr>"

text \<open>A sensor: \<^verbatim>\<open>capturar_secuencia(n, gesto_cierre)\<close> returns the gestures and the timings.\<close>

type_synonym sensor = "nat \<Rightarrow> int option \<Rightarrow> int list \<times> flotante list option"

section \<open>The service\<close>

subsection \<open>validar\_rfid\<close>

definition validar_rfid ::
  "servicio \<Rightarrow> string \<Rightarrow> string \<Rightarrow> fecha_hora \<Rightarrow> (error + unit) \<times> servicio" where
  "validar_rfid s0 serial cedula_esperada ahora =
     (let s = llamar (Obtener_por_serial serial) s0 in
      case repo_rfid s serial of
        None \<Rightarrow> (Inl NoEncontrado, s)
      | Some cred \<Rightarrow>
          if cedula_propietario cred \<noteq> cedula_esperada then
            (let cred1 = cred\<lparr>intentos_fallidos := intentos_fallidos cred + 1\<rparr>
             in (Inl (AutenticacionError Rfid_no_corresponde),
                 s\<lparr>repo_rfid := (repo_rfid s)(serial \<mapsto> cred1)\<rparr>))
          else if \<not> esta_vigente cred (date ahora) then
            (let cred1 = cred\<lparr>intentos_fallidos := intentos_fallidos cred + 1\<rparr>;
                 cred2 = (if fecha_expiracion cred1 < date ahora
                          then cred1\<lparr>estado := EXPIRADA\<rparr> else cred1)
             in (Inl (AutenticacionError Rfid_invalida),
                 s\<lparr>repo_rfid := (repo_rfid s)(serial \<mapsto> cred2)\<rparr>))
          else
            (let cred1 = cred\<lparr>intentos_exitosos := intentos_exitosos cred + 1\<rparr>;
                 cred2 = cred1\<lparr>intentos_fallidos := 0\<rparr>;
                 cred3 = cred2\<lparr>ultimo_acceso := Some ahora\<rparr>
             in (Inr (), s\<lparr>repo_rfid := (repo_rfid s)(serial \<mapsto> cred3)\<rparr>)))"

subsection \<open>validar\_pin\<close>

definition validar_pin ::
  "servicio \<Rightarrow> string \<Rightarrow> int list \<Rightarrow> (error + unit) \<times> servicio" where
  "validar_pin s0 area secuencia_capturada =
     (let s = llamar (Obtener_por_area area) s0 in
      case repo_pins s area of
        None \<Rightarrow> (Inl NoEncontrado, s)
      | Some pin \<Rightarrow>
          if pin_estado pin = BLOQUEADO then
            (Inl (AutenticacionError Pin_bloqueado), s)
          else if secuencia_capturada \<noteq> pin_secuencia_gestos pin then
            (let pin1 = pin\<lparr>pin_intentos_fallidos := pin_intentos_fallidos pin + 1\<rparr>;
                 pin2 = (if max_intentos_pin s \<le> pin_intentos_fallidos pin1
                         then pin1\<lparr>pin_estado := BLOQUEADO\<rparr> else pin1)
             in (Inl (AutenticacionError Pin_incorrecto),
                 s\<lparr>repo_pins := (repo_pins s)(area \<mapsto> pin2)\<rparr>))
          else
            (Inr (), s\<lparr>repo_pins := (repo_pins s)(area \<mapsto> pin\<lparr>pin_intentos_fallidos := 0\<rparr>)\<rparr>))"

text \<open>
  A caller that validates one captured sequence after the other against the PIN of an
  area, whatever each attempt answers; it returns the answers and the last state.
\<close>

fun intentos_de_pin ::
  "servicio \<Rightarrow> string \<Rightarrow> int list list \<Rightarrow> (error + unit) list \<times> servicio" where
  "intentos_de_pin s area [] = ([], s)"
| "intentos_de_pin s area (sec # resto) =
     (let (r, s1) = validar_pin s area sec;
          (rs, s2) = intentos_de_pin s1 area resto
      in (r # rs, s2))"

subsection \<open>validar\_patron\<close>

text \<open>
  The loop over \<^verbatim>\<open>range(min(len(reference), len(captured)))\<close> that counts the equal
  positions: a fold over the indices with the counter as accumulator.
\<close>

definition contar_matches :: "int list \<Rightarrow> int list \<Rightarrow> nat" where
  "contar_matches ref cap =
     fold (\<lambda>i matches. if ref ! i = cap ! i then matches + 1 else matches)
          [0 ..< min (length ref) (length cap)] 0"

text \<open>
  \<^verbatim>\<open>matches / n\<close> on ints: the quotient correctly rounded to a float;
  \<^verbatim>\<open>ZeroDivisionError\<close> for a zero divisor, \<^verbatim>\<open>OverflowError\<close> when the quotient is
  beyond the floats.
\<close>

definition division_real :: "nat \<Rightarrow> nat \<Rightarrow> error + flotante" where
  "division_real m n =
     (if n = 0 then Inl ZeroDivisionError
      else case redondear (of_nat m / of_nat n) of
             Finito v \<Rightarrow> Inr (Finito v)
           | _ \<Rightarrow> Inl OverflowError)"

text \<open>
  The loop over \<^verbatim>\<open>zip(reference timings, captured timings)\<close>: a pair with a zero
  reference is skipped, and the first pair outside the band raises.
\<close>

definition en_tolerancia :: "flotante \<Rightarrow> flotante \<Rightarrow> bool" where
  "en_tolerancia ref got \<longleftrightarrow>
     fl_menor_igual (fl_mult lit_0_6 ref) got \<and> fl_menor_igual got (fl_mult lit_1_4 ref)"

fun validar_tiempos :: "(flotante \<times> flotante) list \<Rightarrow> error + unit" where
  "validar_tiempos [] = Inr ()"
| "validar_tiempos ((ref, got) # resto) =
     (if fl_igual ref (Finito 0) then validar_tiempos resto
      else if \<not> en_tolerancia ref got then Inl (AutenticacionError Timings_fuera_de_tolerancia)
      else validar_tiempos resto)"

definition validar_patron ::
  "servicio \<Rightarrow> string \<Rightarrow> int list \<Rightarrow> flotante list option \<Rightarrow> (error + unit) \<times> servicio" where
  "validar_patron s0 cedula secuencia_capturada tiempos =
     (let s = llamar (Obtener_por_usuario cedula) s0 in
      case repo_patrones s cedula of
        None \<Rightarrow> (Inl NoEncontrado, s)
      | Some patron \<Rightarrow>
          if length secuencia_capturada = 0 then (Inl ValidacionError, s)
          else
            (let n = max (length (patron_secuencia_gestos patron)) (length secuencia_capturada);
                 matches = contar_matches (patron_secuencia_gestos patron) secuencia_capturada
             in (case division_real matches n of
                   Inl e \<Rightarrow> (Inl e, s)
                 | Inr similitud \<Rightarrow>
                     if fl_menor similitud (umbral_similitud_patron s) then
                       (Inl (AutenticacionError
                               (Patron_no_coincide similitud (umbral_similitud_patron s))), s)
                     else
                       (case (patron_tiempos_entre_gestos patron, tiempos) of
                          (Some refs, Some gots) \<Rightarrow>
                            if length refs = length gots
                            then (validar_tiempos (zip refs gots), s)
                            else (Inr (), s)
                        | _ \<Rightarrow> (Inr (), s)))))"

subsection \<open>autenticar\_mfa\<close>

text \<open>
  \<open>ahora\<close> is what the one call of \<^verbatim>\<open>datetime.now()\<close> at the start returned and \<open>uuid\<close>
  what \<^verbatim>\<open>str(uuid4())\<close> returned. An exception of a validator leaves the function at
  once, with the state the validator left.
\<close>

definition autenticar_mfa ::
  "servicio \<Rightarrow> fecha_hora \<Rightarrow> string \<Rightarrow> string \<Rightarrow> string \<Rightarrow> string \<Rightarrow>
   sensor \<Rightarrow> sensor \<Rightarrow> int option \<Rightarrow> (error + Acceso) \<times> servicio" where
  "autenticar_mfa s0 ahora uuid cedula area serial_rfid sensor_pin sensor_patron gesto_cierre =
     (case validar_rfid s0 serial_rfid cedula ahora of
        (Inl e, s1) \<Rightarrow> (Inl e, s1)
      | (Inr _, s1) \<Rightarrow>
          let s2 = llamar (Capturar_secuencia Sensor_pin 4 gesto_cierre) s1;
              sec_pin = fst (sensor_pin 4 gesto_cierre)
          in if length sec_pin \<noteq> 4 then (Inl (AutenticacionError Pin_incompleto), s2)
             else
               (case validar_pin s2 area sec_pin of
                  (Inl e, s3) \<Rightarrow> (Inl e, s3)
                | (Inr _, s3) \<Rightarrow>
                    let s4 = llamar (Capturar_secuencia Sensor_patron 10 gesto_cierre) s3;
                        (sec_pat, tiempos) = sensor_patron 10 gesto_cierre
                    in if length sec_pat \<noteq> 10
                       then (Inl (AutenticacionError Patron_incompleto), s4)
                       else
                         (case validar_patron s4 cedula sec_pat tiempos of
                            (Inl e, s5) \<Rightarrow> (Inl e, s5)
                          | (Inr _, s5) \<Rightarrow>
                              let s6 = llamar Indicar_exito s5;
                                  s7 = llamar Abrir_puerta s6;
                                  acceso = \<lparr>id_acceso = uuid, cedula_usuario = cedula,
                                            id_area = area, fecha_entrada = ahora,
                                            registro_exitoso_id = ''''\<rparr>;
                                  s8 = (llamar (Agregar acceso) s7)
                                         \<lparr>repo_accesos := repo_accesos s7 @ [acceso]\<rparr>
                              in (Inr acceso, s8))))"

subsection \<open>Construction and sample data\<close>

text \<open>
  The dataclass constructor: the four repositories are given and the three limits take
  their defaults (3, 3 and 0.9). No call has been made yet.
\<close>

definition ServicioAutenticacion ::
  "(string \<rightharpoonup> credencial_rfid) \<Rightarrow> (string \<rightharpoonup> pin_gestual) \<Rightarrow>
   (string \<rightharpoonup> patron_gestual) \<Rightarrow> Acceso list \<Rightarrow> servicio" where
  "ServicioAutenticacion r p pa a =
     \<lparr>repo_rfid = r, repo_pins = p, repo_patrones = pa, repo_accesos = a,
      max_intentos_rfid = 3, max_intentos_pin = 3, umbral_similitud_patron = lit_0_9,
      llamadas = []\<rparr>"

text \<open>A user, her credential, the PIN of an area and her pattern, for the examples.\<close>

definition cred_ana :: credencial_rfid where
  "cred_ana = \<lparr>cedula_propietario = ''1001'', fecha_expiracion = 739000, estado = ACTIVA,
               intentos_fallidos = 0, intentos_exitosos = 0, ultimo_acceso = None\<rparr>"

definition pin_lab :: pin_gestual where
  "pin_lab = \<lparr>pin_secuencia_gestos = [1, 2, 3, 4], pin_estado = ACTIVO,
              pin_intentos_fallidos = 0\<rparr>"

definition patron_ana :: patron_gestual where
  "patron_ana = \<lparr>patron_secuencia_gestos = [1, 2, 3, 4, 5, 1, 2, 3, 4, 5],
                 patron_tiempos_entre_gestos = Some [Finito 1, Finito 0, Finito 2]\<rparr>"

definition servicio_ej :: servicio where
  "servicio_ej = ServicioAutenticacion [''T1'' \<mapsto> cred_ana] [''LAB'' \<mapsto> pin_lab]
                   [''1001'' \<mapsto> patron_ana] []"

definition hoy_ej :: fecha_hora where
  "hoy_ej = \<lparr>dia = 738000, microsegundos = 0\<rparr>"

text \<open>The same service with a pattern whose one reference timing is 45.0.\<close>

definition patron_45 :: patron_gestual where
  "patron_45 = \<lparr>patron_secuencia_gestos = [1, 2, 3, 4, 5, 1, 2, 3, 4, 5],
                patron_tiempos_entre_gestos = Some [Finito 45]\<rparr>"

definition servicio_45 :: servicio where
  "servicio_45 = ServicioAutenticacion [''T1'' \<mapsto> cred_ana] [''LAB'' \<mapsto> pin_lab]
                   [''1001'' \<mapsto> patron_45] []"

section \<open>Properties of the float model\<close>

text \<open>
  The exponent brackets the magnitude, rounding is monotone on the positive rationals, and
  a quotient between 0 and 1 rounds to a finite float between 0 and 1.
\<close>

lemma dos_a_power_int: "dos_a e = power_int 2 e"
  by (simp add: dos_a_def power_int_def inverse_eq_divide power_one_over)

lemma dos_a_pos: "0 < dos_a e"
  by (simp add: dos_a_def)

lemma dos_a_add: "dos_a (a + b) = dos_a a * dos_a b"
  by (simp add: dos_a_power_int power_int_add)

lemma dos_a_diff: "dos_a (a - b) = dos_a a / dos_a b"
  by (simp add: dos_a_power_int power_int_diff)

lemma dos_a_mono: "a \<le> b \<Longrightarrow> dos_a a \<le> dos_a b"
  by (simp add: dos_a_power_int power_int_increasing)

lemma dos_a_strict_mono: "a < b \<Longrightarrow> dos_a a < dos_a b"
  by (simp add: dos_a_power_int power_int_strict_increasing)

lemma dos_a_less_cancel: "dos_a a < dos_a b \<Longrightarrow> a < b"
  using dos_a_mono [of b a] by (cases "a < b") auto

lemma dos_a_of_nat: "0 \<le> e \<Longrightarrow> dos_a e = of_int (2 ^ nat e)"
  by (simp add: dos_a_def)

lemma bitlen_cotas:
  assumes "0 < a"
  shows "dos_a (bitlen a - 1) \<le> of_int a" and "of_int a < dos_a (bitlen a)"
proof -
  have b: "2 ^ nat (bitlen a - 1) \<le> a \<and> a < 2 ^ nat (bitlen a)"
    using assms by (rule bitlen_bounds)
  have p: "1 \<le> bitlen a"
    using assms by (simp add: bitlen_def floorlog_def)
  have "(of_int (2 ^ nat (bitlen a - 1)) :: rat) \<le> of_int a"
    using b by (simp only: of_int_le_iff)
  then show "dos_a (bitlen a - 1) \<le> of_int a"
    using p by (simp add: dos_a_of_nat)
  have "(of_int a :: rat) < of_int (2 ^ nat (bitlen a))"
    using b by (simp only: of_int_less_iff)
  then show "of_int a < dos_a (bitlen a)"
    using p by (simp add: dos_a_of_nat)
qed

lemma exponente_cotas:
  assumes "q \<noteq> 0"
  shows "dos_a (exponente q) \<le> \<bar>q\<bar>" and "\<bar>q\<bar> < dos_a (exponente q + 1)"
proof -
  obtain a b where ab: "quotient_of \<bar>q\<bar> = (a, b)"
    by (cases "quotient_of \<bar>q\<bar>")
  have bpos: "0 < b"
    using ab by (rule quotient_of_denom_pos)
  have q: "\<bar>q\<bar> = of_int a / of_int b"
    using ab by (rule quotient_of_div)
  have "0 < \<bar>q\<bar>" using assms by simp
  then have apos: "0 < a"
    using q bpos by (simp add: zero_less_divide_iff)
  let ?c = "bitlen a - bitlen b"
  note A = bitlen_cotas [OF apos] and B = bitlen_cotas [OF bpos]
  have bq: "(0::rat) < of_int b" using bpos by simp
  have up: "\<bar>q\<bar> < dos_a (?c + 1)"
  proof -
    have "of_int a < dos_a (bitlen a)" by (rule A(2))
    also have "\<dots> = dos_a (?c + 1) * dos_a (bitlen b - 1)"
      by (simp add: dos_a_add [symmetric])
    also have "\<dots> \<le> dos_a (?c + 1) * of_int b"
      using B(1) dos_a_pos [of "?c + 1"] by (simp add: mult_le_cancel_left_pos)
    finally show ?thesis
      using bq by (simp add: q pos_divide_less_eq)
  qed
  have lo: "dos_a (?c - 1) < \<bar>q\<bar>"
  proof -
    have "dos_a (?c - 1) * of_int b < dos_a (?c - 1) * dos_a (bitlen b)"
      using B(2) dos_a_pos [of "?c - 1"] by (simp add: mult_less_cancel_left_pos)
    also have "\<dots> = dos_a (bitlen a - 1)"
      by (simp add: dos_a_add [symmetric])
    also have "\<dots> \<le> of_int a" by (rule A(1))
    finally show ?thesis
      using bq by (simp add: q pos_less_divide_eq)
  qed
  have e: "exponente q = (if dos_a ?c \<le> \<bar>q\<bar> then ?c else ?c - 1)"
    by (simp add: exponente_def ab)
  show "dos_a (exponente q) \<le> \<bar>q\<bar>"
    using lo by (simp add: e)
  show "\<bar>q\<bar> < dos_a (exponente q + 1)"
    using up by (auto simp add: e not_le)
qed

lemma exponente_mono:
  assumes "0 < p" and "p \<le> q"
  shows "exponente p \<le> exponente q"
proof -
  have "dos_a (exponente p) \<le> \<bar>p\<bar>"
    using assms by (intro exponente_cotas) simp
  also have "\<bar>p\<bar> \<le> \<bar>q\<bar>" using assms by simp
  also have "\<bar>q\<bar> < dos_a (exponente q + 1)"
    using assms by (intro exponente_cotas) simp
  finally have "exponente p < exponente q + 1"
    by (rule dos_a_less_cancel)
  then show ?thesis by simp
qed

lemma entero_par_mas_cercano_cotas:
  "\<lfloor>k\<rfloor> \<le> entero_par_mas_cercano k" "entero_par_mas_cercano k \<le> \<lfloor>k\<rfloor> + 1"
  by (simp_all add: entero_par_mas_cercano_def Let_def)

lemma entero_par_mas_cercano_of_int [simp]: "entero_par_mas_cercano (of_int n) = n"
  by (simp add: entero_par_mas_cercano_def Let_def)

lemma entero_par_mas_cercano_mono:
  assumes "j \<le> k"
  shows "entero_par_mas_cercano j \<le> entero_par_mas_cercano k"
proof (cases "\<lfloor>j\<rfloor> = \<lfloor>k\<rfloor>")
  case True
  have "j - of_int \<lfloor>k\<rfloor> \<le> k - of_int \<lfloor>k\<rfloor>"
    using assms by simp
  then show ?thesis
    by (auto simp add: entero_par_mas_cercano_def Let_def True)
next
  case False
  have "\<lfloor>j\<rfloor> \<le> \<lfloor>k\<rfloor>" using assms by (rule floor_mono)
  then have "\<lfloor>j\<rfloor> + 1 \<le> \<lfloor>k\<rfloor>" using False by simp
  then show ?thesis
    using entero_par_mas_cercano_cotas(2) [of j] entero_par_mas_cercano_cotas(1) [of k]
    by linarith
qed


lemma magnitud_redondeada_mono:
  assumes "0 < p" and "p \<le> q"
  shows "magnitud_redondeada p \<le> magnitud_redondeada q"
proof -
  let ?e1 = "max (exponente p) (- 1022)" and ?e2 = "max (exponente q) (- 1022)"
  let ?u1 = "dos_a (?e1 - 52)" and ?u2 = "dos_a (?e2 - 52)"
  have qpos: "0 < q" using assms by simp
  have m1: "magnitud_redondeada p = of_int (entero_par_mas_cercano (p / ?u1)) * ?u1"
    using assms(1) by (simp add: magnitud_redondeada_def Let_def)
  have m2: "magnitud_redondeada q = of_int (entero_par_mas_cercano (q / ?u2)) * ?u2"
    using qpos by (simp add: magnitud_redondeada_def Let_def)
  have le: "?e1 \<le> ?e2"
    using exponente_mono [OF assms] by simp
  show ?thesis
  proof (cases "?e1 = ?e2")
    case True
    have "p / ?u2 \<le> q / ?u2"
      using assms(2) dos_a_pos [of "?e2 - 52"] by (simp add: divide_right_mono)
    then have "entero_par_mas_cercano (p / ?u2) \<le> entero_par_mas_cercano (q / ?u2)"
      by (rule entero_par_mas_cercano_mono)
    then have "(of_int (entero_par_mas_cercano (p / ?u2)) :: rat)
                 \<le> of_int (entero_par_mas_cercano (q / ?u2))"
      by (simp only: of_int_le_iff)
    then have "of_int (entero_par_mas_cercano (p / ?u2)) * ?u2
                 \<le> of_int (entero_par_mas_cercano (q / ?u2)) * ?u2"
      using dos_a_pos [of "?e2 - 52"] by (simp only: mult_le_cancel_right_pos)
    then show ?thesis
      by (simp only: m1 m2 True)
  next
    case False
    with le have lt: "?e1 < ?e2" by (rule le_neq_trans)
    then have e2: "?e2 = exponente q"
      by (auto simp add: max_def split: if_splits)
    have "dos_a ?e2 \<le> \<bar>q\<bar>"
      unfolding e2 using qpos by (intro exponente_cotas) simp
    then have "dos_a ?e2 / ?u2 \<le> q / ?u2"
      using qpos dos_a_pos [of "?e2 - 52"] by (simp add: divide_right_mono)
    moreover have "dos_a ?e2 / ?u2 = of_int (2 ^ 52)"
      by (simp only: dos_a_diff [symmetric]) (simp add: dos_a_def)
    ultimately have "(of_int (2 ^ 52) :: rat) \<le> q / ?u2" by simp
    then have "entero_par_mas_cercano (of_int (2 ^ 52)) \<le> entero_par_mas_cercano (q / ?u2)"
      by (rule entero_par_mas_cercano_mono)
    then have "(of_int (2 ^ 52) :: rat) \<le> of_int (entero_par_mas_cercano (q / ?u2))"
      by (simp only: entero_par_mas_cercano_of_int of_int_le_iff)
    then have "of_int (2 ^ 52) * ?u2 \<le> magnitud_redondeada q"
      using dos_a_pos [of "?e2 - 52"] by (simp only: m2 mult_le_cancel_right_pos)
    moreover have "of_int (2 ^ 52) * ?u2 = dos_a ?e2"
    proof -
      have "dos_a 52 * dos_a (?e2 - 52) = dos_a ?e2"
        by (simp only: dos_a_add [symmetric]) simp
      then show ?thesis by (simp add: dos_a_def)
    qed
    ultimately have abajo: "dos_a ?e2 \<le> magnitud_redondeada q" by simp
    have "\<bar>p\<bar> < dos_a (exponente p + 1)"
      using assms(1) by (intro exponente_cotas) simp
    also have "\<dots> \<le> dos_a (?e1 + 1)"
      by (rule dos_a_mono) simp
    finally have "p \<le> dos_a (?e1 + 1)" using assms(1) by simp
    then have "p / ?u1 \<le> dos_a (?e1 + 1) / ?u1"
      using dos_a_pos [of "?e1 - 52"] by (simp add: divide_right_mono)
    moreover have "dos_a (?e1 + 1) / ?u1 = of_int (2 ^ 53)"
      by (simp only: dos_a_diff [symmetric]) (simp add: dos_a_def)
    ultimately have "p / ?u1 \<le> of_int (2 ^ 53)" by simp
    then have "entero_par_mas_cercano (p / ?u1) \<le> entero_par_mas_cercano (of_int (2 ^ 53))"
      by (rule entero_par_mas_cercano_mono)
    then have "(of_int (entero_par_mas_cercano (p / ?u1)) :: rat) \<le> of_int (2 ^ 53)"
      by (simp only: entero_par_mas_cercano_of_int of_int_le_iff)
    then have "magnitud_redondeada p \<le> of_int (2 ^ 53) * ?u1"
      using dos_a_pos [of "?e1 - 52"] by (simp only: m1 mult_le_cancel_right_pos)
    moreover have "of_int (2 ^ 53) * ?u1 = dos_a (?e1 + 1)"
    proof -
      have "dos_a 53 * dos_a (?e1 - 52) = dos_a (?e1 + 1)"
        by (simp only: dos_a_add [symmetric]) (simp add: add.commute)
      then show ?thesis by (simp add: dos_a_def)
    qed
    ultimately have "magnitud_redondeada p \<le> dos_a (?e1 + 1)" by simp
    also have "\<dots> \<le> dos_a ?e2"
    proof (rule dos_a_mono)
      from lt show "?e1 + 1 \<le> ?e2" by (rule zless_imp_add1_zle)
    qed
    also note abajo
    finally show ?thesis .
  qed
qed

lemma fl_menor_igual_refl: "x \<noteq> NaN \<Longrightarrow> fl_menor_igual x x"
  by (cases x) (simp_all add: fl_menor_igual_def)

lemma redondear_no_NaN: "redondear q \<noteq> NaN"
  by (simp add: redondear_def Let_def)

lemma redondear_mono_pos:
  assumes "0 < p" and "p \<le> q"
  shows "fl_menor_igual (redondear p) (redondear q)"
proof -
  have "magnitud_redondeada p \<le> magnitud_redondeada q"
    using assms by (rule magnitud_redondeada_mono)
  then show ?thesis
    using assms by (auto simp add: redondear_def Let_def fl_menor_igual_def)
qed

lemma magnitud_redondeada_1: "magnitud_redondeada 1 = 1"
  by code_simp

lemma redondear_unidad:
  assumes "0 \<le> q" and "q \<le> 1"
  shows "\<exists>v. redondear q = Finito v \<and> 0 \<le> v \<and> v \<le> 1"
proof (cases "q = 0")
  case True
  then show ?thesis by (simp add: redondear_def)
next
  case False
  then have pos: "0 < q" using assms(1) by simp
  have "magnitud_redondeada q \<le> magnitud_redondeada 1"
    using pos assms(2) by (rule magnitud_redondeada_mono)
  then have le1: "magnitud_redondeada q \<le> 1"
    by (simp only: magnitud_redondeada_1)
  have "(1::rat) < dos_a 1024" by (simp add: dos_a_def)
  then have fin: "\<not> dos_a 1024 \<le> magnitud_redondeada q"
    using le1 by simp
  let ?u = "dos_a (max (exponente q) (- 1022) - 52)"
  have "0 \<le> \<lfloor>\<bar>q\<bar> / ?u\<rfloor>"
    using dos_a_pos [of "max (exponente q) (- 1022) - 52"] by (simp add: less_imp_le)
  then have "0 \<le> entero_par_mas_cercano (\<bar>q\<bar> / ?u)"
    using entero_par_mas_cercano_cotas(1) [of "\<bar>q\<bar> / ?u"] by linarith
  then have "0 \<le> magnitud_redondeada q"
    using dos_a_pos [of "max (exponente q) (- 1022) - 52"]
    by (simp add: magnitud_redondeada_def Let_def less_imp_le)
  then show ?thesis
    using pos fin le1 False by (simp add: redondear_def Let_def)
qed

section \<open>The RFID validator\<close>

lemma llamar_campos [simp]:
  "repo_rfid (llamar c s) = repo_rfid s"
  "repo_pins (llamar c s) = repo_pins s"
  "repo_patrones (llamar c s) = repo_patrones s"
  "repo_accesos (llamar c s) = repo_accesos s"
  "max_intentos_rfid (llamar c s) = max_intentos_rfid s"
  "max_intentos_pin (llamar c s) = max_intentos_pin s"
  "umbral_similitud_patron (llamar c s) = umbral_similitud_patron s"
  "llamadas (llamar c s) = llamadas s @ [c]"
  by (simp_all add: llamar_def)

text \<open>
  C6. When the owner of the credential is not the expected user, \<open>validar_rfid\<close> raises the
  authentication error of the identity mismatch, and the state it leaves is the one before
  with the failed-attempt count of that credential one higher: the lifecycle state and
  every other field of the credential are as they were.
\<close>

theorem validar_rfid_propietario_distinto:
  assumes "repo_rfid s serial = Some cred"
    and "cedula_propietario cred \<noteq> cedula_esperada"
  shows "validar_rfid s serial cedula_esperada ahora =
           (Inl (AutenticacionError Rfid_no_corresponde),
            (llamar (Obtener_por_serial serial) s)
              \<lparr>repo_rfid := (repo_rfid s)
                 (serial \<mapsto> cred\<lparr>intentos_fallidos := intentos_fallidos cred + 1\<rparr>)\<rparr>)"
  using assms by (simp add: validar_rfid_def Let_def)

theorem validar_rfid_propietario_distinto_witness:
  "repo_rfid servicio_ej ''T1'' = Some cred_ana \<and> cedula_propietario cred_ana \<noteq> ''2002'' \<and>
   validar_rfid servicio_ej ''T1'' ''2002'' hoy_ej =
     (Inl (AutenticacionError Rfid_no_corresponde),
      (llamar (Obtener_por_serial ''T1'') servicio_ej)
        \<lparr>repo_rfid := (repo_rfid servicio_ej)
           (''T1'' \<mapsto> cred_ana\<lparr>intentos_fallidos := intentos_fallidos cred_ana + 1\<rparr>)\<rparr>)"
proof -
  have a: "repo_rfid servicio_ej ''T1'' = Some cred_ana"
    by (simp add: servicio_ej_def ServicioAutenticacion_def)
  have b: "cedula_propietario cred_ana \<noteq> ''2002''"
    by (simp add: cred_ana_def)
  show ?thesis
    using a b validar_rfid_propietario_distinto [OF a b, of hoy_ej] by simp
qed

text \<open>
  C5. When the owner matches and the credential is not valid at the evaluation date,
  \<open>validar_rfid\<close> raises the authentication error of the invalid credential; the
  failed-attempt count is one higher, and the state becomes EXPIRED when the evaluation
  date is strictly past the expiration date and stays what it was otherwise (for a
  credential that is invalid only because it is BLOCKED or INACTIVE). Validity is: state
  ACTIVE and evaluation date at most the expiration date.
\<close>

theorem validar_rfid_no_vigente:
  assumes "repo_rfid s serial = Some cred"
    and "cedula_propietario cred = cedula_esperada"
    and "\<not> esta_vigente cred (date ahora)"
  shows "validar_rfid s serial cedula_esperada ahora =
           (Inl (AutenticacionError Rfid_invalida),
            (llamar (Obtener_por_serial serial) s)
              \<lparr>repo_rfid := (repo_rfid s)
                 (serial \<mapsto> cred\<lparr>intentos_fallidos := intentos_fallidos cred + 1,
                                 estado := (if fecha_expiracion cred < date ahora
                                            then EXPIRADA else estado cred)\<rparr>)\<rparr>)
         \<and> (\<forall>c d. esta_vigente c d = (estado c = ACTIVA \<and> d \<le> fecha_expiracion c))"
  using assms by (simp add: validar_rfid_def Let_def esta_vigente_def)

theorem validar_rfid_no_vigente_witness:
  "repo_rfid (servicio_ej\<lparr>repo_rfid := [''T1'' \<mapsto> cred_ana\<lparr>estado := INACTIVA\<rparr>]\<rparr>) ''T1''
     = Some (cred_ana\<lparr>estado := INACTIVA\<rparr>) \<and>
   \<not> esta_vigente (cred_ana\<lparr>estado := INACTIVA\<rparr>) (date hoy_ej) \<and>
   validar_rfid (servicio_ej\<lparr>repo_rfid := [''T1'' \<mapsto> cred_ana\<lparr>estado := INACTIVA\<rparr>]\<rparr>)
       ''T1'' ''1001'' hoy_ej =
     (Inl (AutenticacionError Rfid_invalida),
      (llamar (Obtener_por_serial ''T1'') servicio_ej)
        \<lparr>repo_rfid := [''T1'' \<mapsto> cred_ana\<lparr>estado := INACTIVA, intentos_fallidos := 1\<rparr>]\<rparr>)"
proof -
  let ?c = "cred_ana\<lparr>estado := INACTIVA\<rparr>"
  let ?s = "servicio_ej\<lparr>repo_rfid := [''T1'' \<mapsto> ?c]\<rparr>"
  have a: "repo_rfid ?s ''T1'' = Some ?c" by simp
  have b: "cedula_propietario ?c = ''1001''" by (simp add: cred_ana_def)
  have c: "\<not> esta_vigente ?c (date hoy_ej)" by (simp add: esta_vigente_def)
  show ?thesis
    using a c validar_rfid_no_vigente [OF a b c]
    by (simp add: cred_ana_def hoy_ej_def date_def llamar_def)
qed

text \<open>
  C10. When the owner matches, the credential is not valid at the evaluation date and its
  expiration date is strictly before the evaluation date, \<open>validar_rfid\<close> sets the state to
  EXPIRED whatever it was before, BLOCKED and INACTIVE included.
\<close>

theorem validar_rfid_expira_bloqueada:
  assumes "repo_rfid s serial = Some cred"
    and "cedula_propietario cred = cedula_esperada"
    and "\<not> esta_vigente cred (date ahora)"
    and "fecha_expiracion cred < date ahora"
  shows "validar_rfid s serial cedula_esperada ahora =
           (Inl (AutenticacionError Rfid_invalida),
            (llamar (Obtener_por_serial serial) s)
              \<lparr>repo_rfid := (repo_rfid s)
                 (serial \<mapsto> cred\<lparr>intentos_fallidos := intentos_fallidos cred + 1,
                                 estado := EXPIRADA\<rparr>)\<rparr>)"
  using assms by (simp add: validar_rfid_def Let_def)

theorem validar_rfid_expira_bloqueada_witness:
  "estado (cred_ana\<lparr>estado := BLOQUEADA, fecha_expiracion := 737000\<rparr>) = BLOQUEADA \<and>
   \<not> esta_vigente (cred_ana\<lparr>estado := BLOQUEADA, fecha_expiracion := 737000\<rparr>) (date hoy_ej) \<and>
   fecha_expiracion (cred_ana\<lparr>estado := BLOQUEADA, fecha_expiracion := 737000\<rparr>) < date hoy_ej \<and>
   validar_rfid
       (servicio_ej\<lparr>repo_rfid :=
          [''T1'' \<mapsto> cred_ana\<lparr>estado := BLOQUEADA, fecha_expiracion := 737000\<rparr>]\<rparr>)
       ''T1'' ''1001'' hoy_ej =
     (Inl (AutenticacionError Rfid_invalida),
      (llamar (Obtener_por_serial ''T1'') servicio_ej)
        \<lparr>repo_rfid := [''T1'' \<mapsto> cred_ana\<lparr>estado := EXPIRADA, fecha_expiracion := 737000,
                                         intentos_fallidos := 1\<rparr>]\<rparr>)"
proof -
  let ?c = "cred_ana\<lparr>estado := BLOQUEADA, fecha_expiracion := 737000\<rparr>"
  let ?s = "servicio_ej\<lparr>repo_rfid := [''T1'' \<mapsto> ?c]\<rparr>"
  have a: "repo_rfid ?s ''T1'' = Some ?c" by simp
  have b: "cedula_propietario ?c = ''1001''" by (simp add: cred_ana_def)
  have c: "\<not> esta_vigente ?c (date hoy_ej)" by (simp add: esta_vigente_def)
  have d: "fecha_expiracion ?c < date hoy_ej" by (simp add: hoy_ej_def date_def)
  show ?thesis
    using c d validar_rfid_expira_bloqueada [OF a b c d]
    by (simp add: cred_ana_def llamar_def)
qed

text \<open>
  C9. \<open>validar_rfid\<close> never blocks a credential and never reads \<open>max_intentos_rfid\<close>: a
  credential that is not BLOCKED before the call is not BLOCKED after it, whatever its
  failed-attempt count, and the call with another value of \<open>max_intentos_rfid\<close> answers the
  same and leaves the same state (that value apart).
\<close>

theorem validar_rfid_sin_bloqueo:
  assumes "repo_rfid s k = Some cred"
    and "estado cred \<noteq> BLOQUEADA"
  shows "(\<exists>cred'. repo_rfid (snd (validar_rfid s serial cedula_esperada ahora)) k = Some cred'
                  \<and> estado cred' \<noteq> BLOQUEADA)
         \<and> validar_rfid (s\<lparr>max_intentos_rfid := m\<rparr>) serial cedula_esperada ahora =
             (fst (validar_rfid s serial cedula_esperada ahora),
              (snd (validar_rfid s serial cedula_esperada ahora))\<lparr>max_intentos_rfid := m\<rparr>)"
  using assms
  by (auto simp add: validar_rfid_def Let_def llamar_def split: option.splits)

theorem validar_rfid_sin_bloqueo_witness:
  "estado (cred_ana\<lparr>intentos_fallidos := 1000\<rparr>) \<noteq> BLOQUEADA \<and>
   max_intentos_rfid servicio_ej = 3 \<and>
   (\<exists>cred'. repo_rfid (snd (validar_rfid
                 (servicio_ej\<lparr>repo_rfid := [''T1'' \<mapsto> cred_ana\<lparr>intentos_fallidos := 1000\<rparr>]\<rparr>)
                 ''T1'' ''2002'' hoy_ej)) ''T1'' = Some cred'
             \<and> intentos_fallidos cred' = 1001 \<and> estado cred' \<noteq> BLOQUEADA)"
proof -
  let ?c = "cred_ana\<lparr>intentos_fallidos := 1000\<rparr>"
  let ?s = "servicio_ej\<lparr>repo_rfid := [''T1'' \<mapsto> ?c]\<rparr>"
  have a: "repo_rfid ?s ''T1'' = Some ?c" by simp
  have b: "estado ?c \<noteq> BLOQUEADA" by (simp add: cred_ana_def)
  have c: "max_intentos_rfid servicio_ej = 3"
    by (simp add: servicio_ej_def ServicioAutenticacion_def)
  show ?thesis
    using b c validar_rfid_sin_bloqueo [OF a b, of "''T1''" "''2002''" hoy_ej 3]
    by (auto simp add: validar_rfid_def Let_def cred_ana_def)
qed

section \<open>The PIN validator\<close>

text \<open>
  C3. For a PIN in state ACTIVE with failed-attempt count \<open>k\<close> and a captured sequence
  other than the reference, \<open>validar_pin\<close> raises the authentication error of the incorrect
  PIN and leaves the PIN with count \<open>k + 1\<close>, in state BLOCKED if \<open>k + 1\<close> has reached
  \<open>max_intentos_pin\<close> and in state ACTIVE otherwise.
\<close>

theorem validar_pin_incorrecto:
  assumes "repo_pins s area = Some pin"
    and "pin_estado pin = ACTIVO"
    and "pin_intentos_fallidos pin = k"
    and "secuencia_capturada \<noteq> pin_secuencia_gestos pin"
  shows "validar_pin s area secuencia_capturada =
           (Inl (AutenticacionError Pin_incorrecto),
            (llamar (Obtener_por_area area) s)
              \<lparr>repo_pins := (repo_pins s)
                 (area \<mapsto> pin\<lparr>pin_intentos_fallidos := k + 1,
                                pin_estado := (if max_intentos_pin s \<le> k + 1
                                               then BLOQUEADO else ACTIVO)\<rparr>)\<rparr>)"
proof (cases "max_intentos_pin s \<le> k + 1")
  case True
  then show ?thesis
    using assms by (simp add: validar_pin_def Let_def)
next
  case False
  have eq: "pin\<lparr>pin_intentos_fallidos := k + 1, pin_estado := ACTIVO\<rparr> =
            pin\<lparr>pin_intentos_fallidos := k + 1\<rparr>"
    using assms(2) by (cases pin) simp
  show ?thesis
    using assms False by (simp add: validar_pin_def Let_def eq)
qed

theorem validar_pin_incorrecto_witness:
  "max_intentos_pin servicio_ej = 3 \<and>
   validar_pin servicio_ej ''LAB'' [1, 2, 3, 5] =
     (Inl (AutenticacionError Pin_incorrecto),
      (llamar (Obtener_por_area ''LAB'') servicio_ej)
        \<lparr>repo_pins := [''LAB'' \<mapsto> pin_lab\<lparr>pin_intentos_fallidos := 1\<rparr>]\<rparr>) \<and>
   validar_pin (servicio_ej\<lparr>repo_pins := [''LAB'' \<mapsto> pin_lab\<lparr>pin_intentos_fallidos := 2\<rparr>]\<rparr>)
       ''LAB'' [1, 2, 3, 5] =
     (Inl (AutenticacionError Pin_incorrecto),
      (llamar (Obtener_por_area ''LAB'') servicio_ej)
        \<lparr>repo_pins := [''LAB'' \<mapsto> pin_lab\<lparr>pin_intentos_fallidos := 3,
                                         pin_estado := BLOQUEADO\<rparr>]\<rparr>)"
proof -
  let ?p = "pin_lab\<lparr>pin_intentos_fallidos := 2\<rparr>"
  let ?s = "servicio_ej\<lparr>repo_pins := [''LAB'' \<mapsto> ?p]\<rparr>"
  have m: "max_intentos_pin servicio_ej = 3"
    by (simp add: servicio_ej_def ServicioAutenticacion_def)
  have a1: "repo_pins servicio_ej ''LAB'' = Some pin_lab"
    by (simp add: servicio_ej_def ServicioAutenticacion_def)
  have b1: "pin_estado pin_lab = ACTIVO" by (simp add: pin_lab_def)
  have c1: "pin_intentos_fallidos pin_lab = 0" by (simp add: pin_lab_def)
  have d1: "[1, 2, 3, 5] \<noteq> pin_secuencia_gestos pin_lab" by (simp add: pin_lab_def)
  have a2: "repo_pins ?s ''LAB'' = Some ?p" by simp
  have b2: "pin_estado ?p = ACTIVO" by (simp add: pin_lab_def)
  have c2: "pin_intentos_fallidos ?p = 2" by simp
  have d2: "[1, 2, 3, 5] \<noteq> pin_secuencia_gestos ?p" by (simp add: pin_lab_def)
  have r: "repo_pins servicio_ej = [''LAB'' \<mapsto> pin_lab]"
    by (simp add: servicio_ej_def ServicioAutenticacion_def)
  show ?thesis
    using m validar_pin_incorrecto [OF a1 b1 c1 d1] validar_pin_incorrecto [OF a2 b2 c2 d2]
    by (simp add: r llamar_def pin_lab_def)
qed

lemma validar_pin_en_bloqueado:
  assumes "repo_pins s area = Some pin"
    and "pin_estado pin = BLOQUEADO"
  shows "validar_pin s area sec =
           (Inl (AutenticacionError Pin_bloqueado), llamar (Obtener_por_area area) s)"
  using assms by (simp add: validar_pin_def Let_def)

lemma intentos_de_pin_en_bloqueado:
  assumes "repo_pins s area = Some pin"
    and "pin_estado pin = BLOQUEADO"
  shows "intentos_de_pin s area secs =
           (replicate (length secs) (Inl (AutenticacionError Pin_bloqueado)),
            s\<lparr>llamadas := llamadas s @ replicate (length secs) (Obtener_por_area area)\<rparr>)"
  using assms
proof (induction secs arbitrary: s)
  case Nil
  then show ?case by simp
next
  case (Cons sec secs)
  let ?s1 = "llamar (Obtener_por_area area) s"
  have paso: "validar_pin s area sec = (Inl (AutenticacionError Pin_bloqueado), ?s1)"
    using Cons.prems by (rule validar_pin_en_bloqueado)
  have "repo_pins ?s1 area = Some pin"
    using Cons.prems(1) by simp
  then have resto: "intentos_de_pin ?s1 area secs =
      (replicate (length secs) (Inl (AutenticacionError Pin_bloqueado)),
       ?s1\<lparr>llamadas := llamadas ?s1 @ replicate (length secs) (Obtener_por_area area)\<rparr>)"
    using Cons.IH Cons.prems(2) by blast
  show ?case
    by (simp add: paso resto)
qed

text \<open>
  C4. For a PIN in state BLOCKED, \<open>validar_pin\<close> raises the authentication error of the
  blocked PIN for every captured sequence, the reference included, and changes nothing but
  the log of the repository lookup: the PIN keeps its count and its state. The same holds
  for any number of attempts in a row: each one is refused and the repository of PINs is
  the one before.
\<close>

theorem validar_pin_bloqueado:
  assumes "repo_pins s area = Some pin"
    and "pin_estado pin = BLOQUEADO"
  shows "validar_pin s area sec =
           (Inl (AutenticacionError Pin_bloqueado), llamar (Obtener_por_area area) s)
         \<and> validar_pin s area (pin_secuencia_gestos pin) =
           (Inl (AutenticacionError Pin_bloqueado), llamar (Obtener_por_area area) s)
         \<and> repo_pins (snd (validar_pin s area sec)) = repo_pins s
         \<and> fst (intentos_de_pin s area secs) =
             replicate (length secs) (Inl (AutenticacionError Pin_bloqueado))
         \<and> repo_pins (snd (intentos_de_pin s area secs)) = repo_pins s"
  using assms
  by (simp add: validar_pin_en_bloqueado intentos_de_pin_en_bloqueado)

theorem validar_pin_bloqueado_witness:
  "validar_pin
       (servicio_ej\<lparr>repo_pins := [''LAB'' \<mapsto> pin_lab\<lparr>pin_intentos_fallidos := 3,
                                                   pin_estado := BLOQUEADO\<rparr>]\<rparr>)
       ''LAB'' [1, 2, 3, 4] =
     (Inl (AutenticacionError Pin_bloqueado),
      llamar (Obtener_por_area ''LAB'')
        (servicio_ej\<lparr>repo_pins := [''LAB'' \<mapsto> pin_lab\<lparr>pin_intentos_fallidos := 3,
                                                    pin_estado := BLOQUEADO\<rparr>]\<rparr>)) \<and>
   repo_pins (snd (intentos_de_pin
       (servicio_ej\<lparr>repo_pins := [''LAB'' \<mapsto> pin_lab\<lparr>pin_intentos_fallidos := 3,
                                                   pin_estado := BLOQUEADO\<rparr>]\<rparr>)
       ''LAB'' [[1, 2, 3, 4], [4, 3, 2, 1], []])) ''LAB'' =
     Some (pin_lab\<lparr>pin_intentos_fallidos := 3, pin_estado := BLOQUEADO\<rparr>) \<and>
   fst (intentos_de_pin
       (servicio_ej\<lparr>repo_pins := [''LAB'' \<mapsto> pin_lab\<lparr>pin_intentos_fallidos := 3,
                                                   pin_estado := BLOQUEADO\<rparr>]\<rparr>)
       ''LAB'' [[1, 2, 3, 4], [4, 3, 2, 1], []]) =
     [Inl (AutenticacionError Pin_bloqueado), Inl (AutenticacionError Pin_bloqueado),
      Inl (AutenticacionError Pin_bloqueado)]"
proof -
  let ?p = "pin_lab\<lparr>pin_intentos_fallidos := 3, pin_estado := BLOQUEADO\<rparr>"
  let ?s = "servicio_ej\<lparr>repo_pins := [''LAB'' \<mapsto> ?p]\<rparr>"
  have a: "repo_pins ?s ''LAB'' = Some ?p" by simp
  have b: "pin_estado ?p = BLOQUEADO" by simp
  show ?thesis
    using a validar_pin_bloqueado [OF a b, of "[1, 2, 3, 4]" "[[1, 2, 3, 4], [4, 3, 2, 1], []]"]
    by (simp del: intentos_de_pin.simps)
qed

section \<open>The pattern matcher\<close>

lemma fold_contar:
  "fold (\<lambda>i (m::nat). if P i then m + 1 else m) [0 ..< k] a = a + card {i. i < k \<and> P i}"
proof (induction k)
  case 0
  then show ?case by simp
next
  case (Suc k)
  have fin: "finite {i. i < k \<and> P i}" by simp
  have notin: "k \<notin> {i. i < k \<and> P i}" by simp
  show ?case
  proof (cases "P k")
    case True
    then have "{i. i < Suc k \<and> P i} = insert k {i. i < k \<and> P i}"
      by (auto simp add: less_Suc_eq)
    then have "card {i. i < Suc k \<and> P i} = Suc (card {i. i < k \<and> P i})"
      using fin notin by simp
    then show ?thesis using True Suc.IH by simp
  next
    case False
    then have "{i. i < Suc k \<and> P i} = {i. i < k \<and> P i}"
      by (auto simp add: less_Suc_eq)
    then show ?thesis using False Suc.IH by simp
  qed
qed

lemma contar_matches_card:
  "contar_matches ref cap =
     card {i. i < min (length ref) (length cap) \<and> ref ! i = cap ! i}"
  by (simp add: contar_matches_def fold_contar)

lemma contar_matches_cota:
  "contar_matches ref cap \<le> max (length ref) (length cap)"
proof -
  let ?k = "min (length ref) (length cap)"
  have "{i. i < ?k \<and> ref ! i = cap ! i} \<subseteq> {..< ?k}" by auto
  then have "card {i. i < ?k \<and> ref ! i = cap ! i} \<le> card {..< ?k}"
    by (intro card_mono) simp_all
  then have a: "contar_matches ref cap \<le> ?k"
    by (simp only: contar_matches_card card_lessThan)
  have b: "?k \<le> max (length ref) (length cap)"
    by (simp add: min_def max_def)
  from a b show ?thesis by (rule order_trans)
qed

lemma division_real_unidad:
  assumes "0 < n" and "m \<le> n"
  shows "division_real m n = Inr (redondear (of_nat m / of_nat n))"
proof -
  have "(0::rat) \<le> of_nat m / of_nat n" by simp
  moreover have "(of_nat m :: rat) / of_nat n \<le> 1"
    using assms by (simp add: divide_le_eq_1)
  ultimately obtain v where "redondear (of_nat m / of_nat n) = Finito v"
    using redondear_unidad by blast
  then show ?thesis
    using assms(1) by (simp add: division_real_def)
qed

lemma fl_menor_irrefl: "\<not> fl_menor x x"
  by (cases x) simp_all

lemma fl_igual_refl: "x \<noteq> NaN \<Longrightarrow> fl_igual x x"
  by (cases x) simp_all

lemma fl_igual_no_menor: "fl_igual a b \<Longrightarrow> \<not> fl_menor a b"
  by (cases a; cases b) simp_all

lemma validar_tiempos_iff:
  "validar_tiempos ps =
     (if \<forall>(r, g) \<in> set ps. fl_igual r (Finito 0) \<or> en_tolerancia r g
      then Inr () else Inl (AutenticacionError Timings_fuera_de_tolerancia))"
  by (induction ps) (auto split: if_splits)

text \<open>The matcher in one equation, for a stored pattern and a capture that is not empty.\<close>

lemma validar_patron_forma:
  assumes "repo_patrones s cedula = Some patron"
    and "cap \<noteq> []"
  shows "validar_patron s cedula cap tiempos =
     (let ref = patron_secuencia_gestos patron;
          similitud = redondear (of_nat (contar_matches ref cap)
                                   / of_nat (max (length ref) (length cap)))
      in ((if fl_menor similitud (umbral_similitud_patron s)
           then Inl (AutenticacionError
                       (Patron_no_coincide similitud (umbral_similitud_patron s)))
           else (case (patron_tiempos_entre_gestos patron, tiempos) of
                   (Some refs, Some gots) \<Rightarrow>
                     if length refs = length gots then validar_tiempos (zip refs gots)
                     else Inr ()
                 | _ \<Rightarrow> Inr ())),
          llamar (Obtener_por_usuario cedula) s))"
proof -
  let ?ref = "patron_secuencia_gestos patron"
  have pos: "0 < max (length ?ref) (length cap)"
    using assms(2) by (simp add: less_max_iff_disj)
  have d: "division_real (contar_matches ?ref cap) (max (length ?ref) (length cap)) =
           Inr (redondear (of_nat (contar_matches ?ref cap)
                             / of_nat (max (length ?ref) (length cap))))"
    using pos contar_matches_cota by (rule division_real_unidad)
  show ?thesis
    using assms
    by (simp add: validar_patron_def Let_def d split: option.splits)
qed

text \<open>
  C2. For a stored pattern and a capture that is not empty, let \<open>n\<close> be the larger of the
  two lengths and \<open>matches\<close> the number of positions of the overlap where reference and
  capture agree. The loop of the matcher counts \<open>matches\<close>, the division \<open>matches / n\<close>
  succeeds and gives the similarity, and \<open>validar_patron\<close> raises the pattern-mismatch
  authentication error exactly when the similarity is below \<open>umbral_similitud_patron\<close>;
  the error then reports that similarity and that threshold. A similarity equal to the
  threshold does not raise it.
\<close>

theorem validar_patron_similitud:
  assumes "repo_patrones s cedula = Some patron"
    and "cap \<noteq> []"
  shows "(let ref = patron_secuencia_gestos patron;
              n = max (length ref) (length cap);
              matches = card {i. i < min (length ref) (length cap) \<and> ref ! i = cap ! i};
              similitud = redondear (of_nat matches / of_nat n);
              umbral = umbral_similitud_patron s;
              r = validar_patron s cedula cap tiempos
          in contar_matches ref cap = matches
             \<and> division_real matches n = Inr similitud
             \<and> ((\<exists>a b. fst r = Inl (AutenticacionError (Patron_no_coincide a b)))
                   = fl_menor similitud umbral)
             \<and> (fl_menor similitud umbral \<longrightarrow>
                   r = (Inl (AutenticacionError (Patron_no_coincide similitud umbral)),
                        llamar (Obtener_por_usuario cedula) s))
             \<and> (fl_igual similitud umbral \<longrightarrow>
                   (\<forall>a b. fst r \<noteq> Inl (AutenticacionError (Patron_no_coincide a b)))))"
proof -
  let ?ref = "patron_secuencia_gestos patron"
  let ?n = "max (length ?ref) (length cap)"
  let ?m = "contar_matches ?ref cap"
  let ?sim = "redondear (of_nat ?m / of_nat ?n)"
  let ?r = "validar_patron s cedula cap tiempos"
  have c: "?m = card {i. i < min (length ?ref) (length cap) \<and> ?ref ! i = cap ! i}"
    by (rule contar_matches_card)
  have pos: "0 < ?n" using assms(2) by (simp add: less_max_iff_disj)
  have d: "division_real ?m ?n = Inr ?sim"
    using pos contar_matches_cota by (rule division_real_unidad)
  have f: "?r = ((if fl_menor ?sim (umbral_similitud_patron s)
           then Inl (AutenticacionError
                       (Patron_no_coincide ?sim (umbral_similitud_patron s)))
           else (case (patron_tiempos_entre_gestos patron, tiempos) of
                   (Some refs, Some gots) \<Rightarrow>
                     if length refs = length gots then validar_tiempos (zip refs gots)
                     else Inr ()
                 | _ \<Rightarrow> Inr ())),
          llamar (Obtener_por_usuario cedula) s)"
    using validar_patron_forma [OF assms, of tiempos] by (simp add: Let_def)
  have no: "\<not> fl_menor ?sim (umbral_similitud_patron s) \<Longrightarrow>
            fst ?r \<noteq> Inl (AutenticacionError (Patron_no_coincide a b))" for a b
    by (simp add: f validar_tiempos_iff split: option.splits)
  have si: "fl_menor ?sim (umbral_similitud_patron s) \<Longrightarrow>
            ?r = (Inl (AutenticacionError (Patron_no_coincide ?sim (umbral_similitud_patron s))),
                  llamar (Obtener_por_usuario cedula) s)"
    by (simp add: f)
  have iff: "(\<exists>a b. fst ?r = Inl (AutenticacionError (Patron_no_coincide a b)))
               = fl_menor ?sim (umbral_similitud_patron s)"
    using no si by (cases "fl_menor ?sim (umbral_similitud_patron s)") auto
  have eq: "fl_igual ?sim (umbral_similitud_patron s) \<Longrightarrow>
            fst ?r \<noteq> Inl (AutenticacionError (Patron_no_coincide a b))" for a b
    using no fl_igual_no_menor by blast
  show ?thesis
    unfolding Let_def c [symmetric]
    using d iff si eq by blast
qed

theorem validar_patron_similitud_witness:
  "repo_patrones servicio_ej ''1001'' = Some patron_ana
   \<and> [1, 2, 3, 4, 5, 1, 2, 3, 4, 9] \<noteq> ([] :: int list)
   \<and> umbral_similitud_patron servicio_ej = lit_0_9
   \<and> card {i. i < min (length (patron_secuencia_gestos patron_ana))
                      (length [1, 2, 3, 4, 5, 1, 2, 3, 4, 9 :: int])
              \<and> patron_secuencia_gestos patron_ana ! i = [1, 2, 3, 4, 5, 1, 2, 3, 4, 9] ! i} = 9
   \<and> division_real 9 10 = Inr lit_0_9
   \<and> (\<forall>a b. fst (validar_patron servicio_ej ''1001'' [1, 2, 3, 4, 5, 1, 2, 3, 4, 9] None)
              \<noteq> Inl (AutenticacionError (Patron_no_coincide a b)))"
proof -
  let ?cap = "[1, 2, 3, 4, 5, 1, 2, 3, 4, 9 :: int]"
  let ?ref = "patron_secuencia_gestos patron_ana"
  let ?card = "card {i. i < min (length ?ref) (length ?cap) \<and> ?ref ! i = ?cap ! i}"
  let ?n = "max (length ?ref) (length ?cap)"
  have a: "repo_patrones servicio_ej ''1001'' = Some patron_ana"
    by (simp add: servicio_ej_def ServicioAutenticacion_def)
  have b: "?cap \<noteq> []" by simp
  have u: "umbral_similitud_patron servicio_ej = lit_0_9"
    by (simp add: servicio_ej_def ServicioAutenticacion_def)
  note t = validar_patron_similitud [OF a b, of None, unfolded Let_def]
  have cm: "contar_matches ?ref ?cap = 9" by code_simp
  from t have "contar_matches ?ref ?cap = ?card" by (rule conjunct1)
  with cm have c9: "?card = 9" by (simp only:)
  have n10: "?n = 10" by (simp add: patron_ana_def)
  from t have "division_real ?card ?n = Inr (redondear (of_nat ?card / of_nat ?n))"
    by blast
  then have d: "division_real 9 10 = Inr lit_0_9"
    by (simp only: c9 n10 lit_0_9_def of_nat_numeral)
  have "fl_igual lit_0_9 lit_0_9"
    by (rule fl_igual_refl) (simp add: lit_0_9_def redondear_no_NaN)
  then have "fl_igual (redondear (of_nat ?card / of_nat ?n)) (umbral_similitud_patron servicio_ej)"
    by (simp only: c9 n10 u lit_0_9_def of_nat_numeral)
  with t have e: "\<forall>a b. fst (validar_patron servicio_ej ''1001'' ?cap None)
                     \<noteq> Inl (AutenticacionError (Patron_no_coincide a b))"
    by blast
  from a b u c9 d e show ?thesis by blast
qed

lemma lit_0_6_valor: "lit_0_6 = Finito (5404319552844595 / 9007199254740992)"
  by code_simp

lemma lit_1_4_valor: "lit_1_4 = Finito (3152519739159347 / 2251799813685248)"
  by code_simp

lemma banda_ordenada:
  assumes "0 < r"
  shows "fl_menor_igual (fl_mult lit_0_6 (Finito r)) (fl_mult lit_1_4 (Finito r))"
proof -
  let ?a = "5404319552844595 / 9007199254740992 :: rat"
  let ?b = "3152519739159347 / 2251799813685248 :: rat"
  have "0 < ?a * r" using assms by simp
  moreover have "?a * r \<le> ?b * r" using assms by simp
  ultimately have "fl_menor_igual (redondear (?a * r)) (redondear (?b * r))"
    by (rule redondear_mono_pos)
  then show ?thesis
    by (simp only: lit_0_6_valor lit_1_4_valor fl_mult.simps)
qed

lemma fl_mult_finito_no_NaN: "fl_mult (Finito a) (Finito b) \<noteq> NaN"
  by (simp add: redondear_no_NaN)

lemma en_tolerancia_bordes:
  assumes "0 < r"
  shows "en_tolerancia (Finito r) (fl_mult lit_0_6 (Finito r))"
    and "en_tolerancia (Finito r) (fl_mult lit_1_4 (Finito r))"
proof -
  have lo: "fl_mult lit_0_6 (Finito r) \<noteq> NaN"
    unfolding lit_0_6_valor by (rule fl_mult_finito_no_NaN)
  have hi: "fl_mult lit_1_4 (Finito r) \<noteq> NaN"
    unfolding lit_1_4_valor by (rule fl_mult_finito_no_NaN)
  show "en_tolerancia (Finito r) (fl_mult lit_0_6 (Finito r))"
    unfolding en_tolerancia_def
    using fl_menor_igual_refl [OF lo] banda_ordenada [OF assms] by blast
  show "en_tolerancia (Finito r) (fl_mult lit_1_4 (Finito r))"
    unfolding en_tolerancia_def
    using fl_menor_igual_refl [OF hi] banda_ordenada [OF assms] by blast
qed

lemma validar_tiempos_primer_fallo:
  assumes "\<forall>(r', g') \<in> set pre. fl_igual r' (Finito 0) \<or> en_tolerancia r' g'"
    and "\<not> fl_igual r (Finito 0)"
    and "\<not> en_tolerancia r g"
  shows "validar_tiempos (pre @ (r, g) # post) =
           Inl (AutenticacionError Timings_fuera_de_tolerancia)"
  using assms by (induction pre) auto

lemma lit_0_9_valor: "lit_0_9 = Finito (8106479329266893 / 9007199254740992)"
  by code_simp

lemma redondear_1: "redondear 1 = Finito 1"
  by (simp add: redondear_def magnitud_redondeada_1 dos_a_def)

lemma fl_mult_lit_1_4_por_2:
  "fl_mult lit_1_4 (Finito 2) = Finito (3152519739159347 / 1125899906842624)"
  unfolding lit_1_4_valor fl_mult.simps by code_simp

lemma fl_mult_lit_1_4_por_45:
  "fl_mult lit_1_4 (Finito 45) = Finito (8866461766385663 / 140737488355328)"
  unfolding lit_1_4_valor fl_mult.simps by code_simp

lemma redondear_27: "redondear 27 = Finito 27"
  by code_simp

text \<open>
  A captured delta that is a float and exactly 60 percent of a positive reference lies in
  the band: the lower bound is computed from the float 0.6, which is below 6/10, and
  rounding is monotone.
\<close>

lemma en_tolerancia_sesenta:
  assumes "0 < r"
    and "redondear ((6 / 10) * r) = Finito ((6 / 10) * r)"
  shows "en_tolerancia (Finito r) (Finito ((6 / 10) * r))"
proof -
  let ?a = "5404319552844595 / 9007199254740992 :: rat"
  let ?b = "3152519739159347 / 2251799813685248 :: rat"
  let ?g = "(6 / 10) * r"
  have "0 < ?a * r" using assms(1) by simp
  moreover have "?a * r \<le> ?g" using assms(1) by simp
  ultimately have "fl_menor_igual (redondear (?a * r)) (redondear ?g)"
    by (rule redondear_mono_pos)
  then have lo: "fl_menor_igual (fl_mult lit_0_6 (Finito r)) (Finito ?g)"
    by (simp only: lit_0_6_valor fl_mult.simps assms(2))
  have "0 < ?g" using assms(1) by simp
  moreover have "?g \<le> ?b * r" using assms(1) by simp
  ultimately have "fl_menor_igual (redondear ?g) (redondear (?b * r))"
    by (rule redondear_mono_pos)
  then have hi: "fl_menor_igual (Finito ?g) (fl_mult lit_1_4 (Finito r))"
    by (simp only: lit_1_4_valor fl_mult.simps assms(2))
  from lo hi show ?thesis
    unfolding en_tolerancia_def by (rule conjI)
qed

text \<open>
  C8. For a stored pattern and a capture that passes the similarity check: when the
  reference timings or the captured timings are absent, or their lengths differ, no timing
  is checked and \<open>validar_patron\<close> succeeds. When both are present with equal length, the
  call succeeds exactly if every pair has a zero reference or a captured delta \<open>g\<close> with
  \<open>0.6 * r \<le> g \<le> 1.4 * r\<close>, and raises the timing authentication error otherwise. The
  first pair outside the band decides: the error is raised whatever pairs follow it. The
  two bounds are the float products \<open>0.6 * r\<close> and \<open>1.4 * r\<close> as the code computes
  them, each rounded, and both comparisons are inclusive: for a positive reference \<open>r\<close>, a
  captured delta equal to the computed lower bound or to the computed upper bound passes,
  and so does a captured float that is exactly 60 percent of \<open>r\<close>. Nothing is stated
  for a captured delta that is exactly 140 percent of \<open>r\<close>.
\<close>

theorem validar_patron_tiempos:
  assumes "repo_patrones s cedula = Some patron"
    and "cap \<noteq> []"
    and "\<not> fl_menor
            (redondear (of_nat (contar_matches (patron_secuencia_gestos patron) cap)
                          / of_nat (max (length (patron_secuencia_gestos patron)) (length cap))))
            (umbral_similitud_patron s)"
  shows "(patron_tiempos_entre_gestos patron = None \<or> tiempos = None
            \<or> (\<exists>refs gots. patron_tiempos_entre_gestos patron = Some refs
                  \<and> tiempos = Some gots \<and> length refs \<noteq> length gots)
          \<longrightarrow> validar_patron s cedula cap tiempos =
                (Inr (), llamar (Obtener_por_usuario cedula) s))
       \<and> (\<forall>refs gots. patron_tiempos_entre_gestos patron = Some refs
              \<and> tiempos = Some gots \<and> length refs = length gots
            \<longrightarrow> validar_patron s cedula cap tiempos =
                  ((if \<forall>(r, g) \<in> set (zip refs gots).
                          fl_igual r (Finito 0)
                          \<or> (fl_menor_igual (fl_mult lit_0_6 r) g
                              \<and> fl_menor_igual g (fl_mult lit_1_4 r))
                    then Inr ()
                    else Inl (AutenticacionError Timings_fuera_de_tolerancia)),
                   llamar (Obtener_por_usuario cedula) s))
       \<and> (\<forall>pre r g post.
             (\<forall>(r', g') \<in> set pre.
                 fl_igual r' (Finito 0)
                 \<or> (fl_menor_igual (fl_mult lit_0_6 r') g'
                     \<and> fl_menor_igual g' (fl_mult lit_1_4 r')))
             \<and> \<not> fl_igual r (Finito 0)
             \<and> \<not> (fl_menor_igual (fl_mult lit_0_6 r) g \<and> fl_menor_igual g (fl_mult lit_1_4 r))
            \<longrightarrow> validar_tiempos (pre @ (r, g) # post) =
                  Inl (AutenticacionError Timings_fuera_de_tolerancia))
       \<and> (\<forall>r. 0 < r \<longrightarrow>
             validar_tiempos [(Finito r, fl_mult lit_0_6 (Finito r))] = Inr ()
             \<and> validar_tiempos [(Finito r, fl_mult lit_1_4 (Finito r))] = Inr ())
       \<and> (\<forall>r. 0 < r \<and> redondear ((6 / 10) * r) = Finito ((6 / 10) * r) \<longrightarrow>
             validar_tiempos [(Finito r, Finito ((6 / 10) * r))] = Inr ())"
proof -
  note f = validar_patron_forma [OF assms(1,2), unfolded Let_def]
  have p1: "patron_tiempos_entre_gestos patron = None \<or> tiempos = None
            \<or> (\<exists>refs gots. patron_tiempos_entre_gestos patron = Some refs
                  \<and> tiempos = Some gots \<and> length refs \<noteq> length gots)
          \<longrightarrow> validar_patron s cedula cap tiempos =
                (Inr (), llamar (Obtener_por_usuario cedula) s)"
    using assms(3) by (auto simp add: f split: option.splits)
  have p2: "\<forall>refs gots. patron_tiempos_entre_gestos patron = Some refs
              \<and> tiempos = Some gots \<and> length refs = length gots
            \<longrightarrow> validar_patron s cedula cap tiempos =
                  ((if \<forall>(r, g) \<in> set (zip refs gots).
                          fl_igual r (Finito 0)
                          \<or> (fl_menor_igual (fl_mult lit_0_6 r) g
                              \<and> fl_menor_igual g (fl_mult lit_1_4 r))
                    then Inr ()
                    else Inl (AutenticacionError Timings_fuera_de_tolerancia)),
                   llamar (Obtener_por_usuario cedula) s)"
    using assms(3)
    by (simp add: f validar_tiempos_iff en_tolerancia_def)
  have p3: "\<forall>pre r g post.
             (\<forall>(r', g') \<in> set pre.
                 fl_igual r' (Finito 0)
                 \<or> (fl_menor_igual (fl_mult lit_0_6 r') g'
                     \<and> fl_menor_igual g' (fl_mult lit_1_4 r')))
             \<and> \<not> fl_igual r (Finito 0)
             \<and> \<not> (fl_menor_igual (fl_mult lit_0_6 r) g \<and> fl_menor_igual g (fl_mult lit_1_4 r))
            \<longrightarrow> validar_tiempos (pre @ (r, g) # post) =
                  Inl (AutenticacionError Timings_fuera_de_tolerancia)"
    using validar_tiempos_primer_fallo
    by (simp only: en_tolerancia_def [symmetric]) blast
  have p4: "\<forall>r. 0 < r \<longrightarrow>
             validar_tiempos [(Finito r, fl_mult lit_0_6 (Finito r))] = Inr ()
             \<and> validar_tiempos [(Finito r, fl_mult lit_1_4 (Finito r))] = Inr ()"
    using en_tolerancia_bordes by simp
  have p5: "\<forall>r. 0 < r \<and> redondear ((6 / 10) * r) = Finito ((6 / 10) * r) \<longrightarrow>
             validar_tiempos [(Finito r, Finito ((6 / 10) * r))] = Inr ()"
    using en_tolerancia_sesenta by simp
  from p1 p2 p3 p4 p5 show ?thesis by (intro conjI)
qed

theorem validar_patron_tiempos_witness:
  "repo_patrones servicio_ej ''1001'' = Some patron_ana
   \<and> patron_tiempos_entre_gestos patron_ana = Some [Finito 1, Finito 0, Finito 2]
   \<and> validar_patron servicio_ej ''1001'' [1, 2, 3, 4, 5, 1, 2, 3, 4, 5] None =
       (Inr (), llamar (Obtener_por_usuario ''1001'') servicio_ej)
   \<and> validar_patron servicio_ej ''1001'' [1, 2, 3, 4, 5, 1, 2, 3, 4, 5]
         (Some [Finito 9, Finito 9]) =
       (Inr (), llamar (Obtener_por_usuario ''1001'') servicio_ej)
   \<and> validar_patron servicio_ej ''1001'' [1, 2, 3, 4, 5, 1, 2, 3, 4, 5]
         (Some [fl_mult lit_0_6 (Finito 1), Finito 77, fl_mult lit_1_4 (Finito 2)]) =
       (Inr (), llamar (Obtener_por_usuario ''1001'') servicio_ej)
   \<and> validar_patron servicio_ej ''1001'' [1, 2, 3, 4, 5, 1, 2, 3, 4, 5]
         (Some [Finito 1, Finito 0, Finito 3]) =
       (Inl (AutenticacionError Timings_fuera_de_tolerancia),
        llamar (Obtener_por_usuario ''1001'') servicio_ej)
   \<and> validar_tiempos [(Finito 45, Finito 27)] = Inr ()"
proof -
  let ?cap = "[1, 2, 3, 4, 5, 1, 2, 3, 4, 5 :: int]"
  let ?refs = "[Finito 1, Finito 0, Finito 2]"
  let ?borde = "[fl_mult lit_0_6 (Finito 1), Finito 77, fl_mult lit_1_4 (Finito 2)]"
  let ?fuera = "[Finito 1, Finito 0, Finito 3]"
  let ?ok = "\<lambda>(r, g). fl_igual r (Finito 0)
                \<or> (fl_menor_igual (fl_mult lit_0_6 r) g \<and> fl_menor_igual g (fl_mult lit_1_4 r))"
  have a: "repo_patrones servicio_ej ''1001'' = Some patron_ana"
    by (simp add: servicio_ej_def ServicioAutenticacion_def)
  have b: "?cap \<noteq> []" by simp
  have t: "patron_tiempos_entre_gestos patron_ana = Some ?refs"
    by (simp add: patron_ana_def)
  have cm: "contar_matches (patron_secuencia_gestos patron_ana) ?cap = 10"
    by code_simp
  have n: "max (length (patron_secuencia_gestos patron_ana)) (length ?cap) = 10"
    by (simp add: patron_ana_def)
  have sim: "redondear (of_nat (contar_matches (patron_secuencia_gestos patron_ana) ?cap)
               / of_nat (max (length (patron_secuencia_gestos patron_ana)) (length ?cap)))
             = Finito 1"
    by (simp only: cm n) (simp add: redondear_1)
  have u: "umbral_similitud_patron servicio_ej = lit_0_9"
    by (simp add: servicio_ej_def ServicioAutenticacion_def)
  have "\<not> fl_menor (Finito 1) lit_0_9"
    by (simp add: lit_0_9_valor)
  then have c: "\<not> fl_menor
            (redondear (of_nat (contar_matches (patron_secuencia_gestos patron_ana) ?cap)
               / of_nat (max (length (patron_secuencia_gestos patron_ana)) (length ?cap))))
            (umbral_similitud_patron servicio_ej)"
    unfolding sim u by assumption
  have r1: "validar_patron servicio_ej ''1001'' ?cap None =
              (Inr (), llamar (Obtener_por_usuario ''1001'') servicio_ej)"
    using validar_patron_tiempos [OF a b c, of None] by blast
  have r2: "validar_patron servicio_ej ''1001'' ?cap (Some [Finito 9, Finito 9]) =
              (Inr (), llamar (Obtener_por_usuario ''1001'') servicio_ej)"
  proof -
    have "length ?refs \<noteq> length [Finito 9, Finito 9]" by simp
    with t show ?thesis
      using validar_patron_tiempos [OF a b c, of "Some [Finito 9, Finito 9]"] by blast
  qed
  have e3: "\<forall>x \<in> set (zip ?refs ?borde). ?ok x"
    using en_tolerancia_bordes(1) [of 1] en_tolerancia_bordes(2) [of 2]
    by (simp add: en_tolerancia_def)
  have r3: "validar_patron servicio_ej ''1001'' ?cap (Some ?borde) =
              (Inr (), llamar (Obtener_por_usuario ''1001'') servicio_ej)"
  proof -
    have l: "length ?refs = length ?borde" by simp
    from validar_patron_tiempos [OF a b c, of "Some ?borde"]
    have "validar_patron servicio_ej ''1001'' ?cap (Some ?borde) =
            ((if \<forall>x \<in> set (zip ?refs ?borde). ?ok x then Inr ()
              else Inl (AutenticacionError Timings_fuera_de_tolerancia)),
             llamar (Obtener_por_usuario ''1001'') servicio_ej)"
      using t l by blast
    then show ?thesis by (simp only: if_P [OF e3])
  qed
  have "\<not> fl_menor_igual (Finito 3) (fl_mult lit_1_4 (Finito 2))"
    by (simp add: fl_mult_lit_1_4_por_2 fl_menor_igual_def)
  then have e4: "\<not> (\<forall>x \<in> set (zip ?refs ?fuera). ?ok x)"
    by simp
  have r4: "validar_patron servicio_ej ''1001'' ?cap (Some ?fuera) =
              (Inl (AutenticacionError Timings_fuera_de_tolerancia),
               llamar (Obtener_por_usuario ''1001'') servicio_ej)"
  proof -
    have l: "length ?refs = length ?fuera" by simp
    from validar_patron_tiempos [OF a b c, of "Some ?fuera"]
    have "validar_patron servicio_ej ''1001'' ?cap (Some ?fuera) =
            ((if \<forall>x \<in> set (zip ?refs ?fuera). ?ok x then Inr ()
              else Inl (AutenticacionError Timings_fuera_de_tolerancia)),
             llamar (Obtener_por_usuario ''1001'') servicio_ej)"
      using t l by blast
    then show ?thesis by (simp only: if_not_P [OF e4])
  qed
  have "(0::rat) < 45 \<and> redondear ((6 / 10) * 45) = Finito ((6 / 10) * 45)"
    by (simp add: redondear_27)
  with validar_patron_tiempos [OF a b c, of None]
  have "validar_tiempos [(Finito 45, Finito ((6 / 10) * 45))] = Inr ()"
    by blast
  then have r5: "validar_tiempos [(Finito 45, Finito 27)] = Inr ()"
    by simp
  from a t r1 r2 r3 r4 r5 show ?thesis by (intro conjI)
qed

text \<open>
  The upper bound is the rounded product, which can lie below 140 percent of the
  reference. For the reference 45.0 the product \<open>1.4 * 45.0\<close> is the float just below 63,
  so the captured delta 63.0, which is exactly 40 percent above the reference, is refused:
  a delta exactly at the upper boundary does not always pass.
\<close>

theorem validar_patron_tiempos_borde_counterexample:
  "(14 / 10) * 45 = (63 :: rat)
   \<and> patron_tiempos_entre_gestos patron_45 = Some [Finito 45]
   \<and> validar_patron servicio_45 ''1001'' [1, 2, 3, 4, 5, 1, 2, 3, 4, 5] (Some [Finito 63]) =
       (Inl (AutenticacionError Timings_fuera_de_tolerancia),
        llamar (Obtener_por_usuario ''1001'') servicio_45)"
proof -
  let ?cap = "[1, 2, 3, 4, 5, 1, 2, 3, 4, 5 :: int]"
  have a: "repo_patrones servicio_45 ''1001'' = Some patron_45"
    by (simp add: servicio_45_def ServicioAutenticacion_def)
  have b: "?cap \<noteq> []" by simp
  have t: "patron_tiempos_entre_gestos patron_45 = Some [Finito 45]"
    by (simp add: patron_45_def)
  have cm: "contar_matches (patron_secuencia_gestos patron_45) ?cap = 10"
    by code_simp
  have n: "max (length (patron_secuencia_gestos patron_45)) (length ?cap) = 10"
    by (simp add: patron_45_def)
  have u: "umbral_similitud_patron servicio_45 = lit_0_9"
    by (simp add: servicio_45_def ServicioAutenticacion_def)
  have fuera: "\<not> en_tolerancia (Finito 45) (Finito 63)"
    by (simp add: en_tolerancia_def fl_mult_lit_1_4_por_45 fl_menor_igual_def)
  have r: "validar_patron servicio_45 ''1001'' ?cap (Some [Finito 63]) =
             (Inl (AutenticacionError Timings_fuera_de_tolerancia),
              llamar (Obtener_por_usuario ''1001'') servicio_45)"
    unfolding validar_patron_forma [OF a b] Let_def cm n u t
    using fuera by (simp add: redondear_1 lit_0_9_valor)
  have e: "(14 / 10) * 45 = (63 :: rat)" by simp
  from e t r show ?thesis by (intro conjI)
qed

section \<open>The orchestrator\<close>

lemma validar_rfid_exito:
  assumes "repo_rfid s serial = Some cred"
    and "cedula_propietario cred = cedula_esperada"
    and "esta_vigente cred (date ahora)"
  shows "validar_rfid s serial cedula_esperada ahora =
           (Inr (),
            (llamar (Obtener_por_serial serial) s)
              \<lparr>repo_rfid := (repo_rfid s)
                 (serial \<mapsto> cred\<lparr>intentos_exitosos := intentos_exitosos cred + 1,
                                 intentos_fallidos := 0,
                                 ultimo_acceso := Some ahora\<rparr>)\<rparr>)"
  using assms by (simp add: validar_rfid_def Let_def)

lemma validar_pin_exito:
  assumes "repo_pins s area = Some pin"
    and "pin_estado pin \<noteq> BLOQUEADO"
    and "sec = pin_secuencia_gestos pin"
  shows "validar_pin s area sec =
           (Inr (),
            (llamar (Obtener_por_area area) s)
              \<lparr>repo_pins := (repo_pins s)(area \<mapsto> pin\<lparr>pin_intentos_fallidos := 0\<rparr>)\<rparr>)"
  using assms by (simp add: validar_pin_def Let_def)

lemma validar_patron_estado:
  "snd (validar_patron s cedula sec tiempos) = llamar (Obtener_por_usuario cedula) s"
  by (simp add: validar_patron_def Let_def split: option.splits sum.splits)

lemma validar_patron_resultado_cong:
  assumes "repo_patrones s' = repo_patrones s"
    and "umbral_similitud_patron s' = umbral_similitud_patron s"
  shows "fst (validar_patron s' cedula sec tiempos) = fst (validar_patron s cedula sec tiempos)"
  using assms by (simp add: validar_patron_def Let_def split: option.splits sum.splits)

lemma validar_patron_ana_exacto:
  "validar_patron servicio_ej ''1001'' [1, 2, 3, 4, 5, 1, 2, 3, 4, 5] None =
     (Inr (), llamar (Obtener_por_usuario ''1001'') servicio_ej)"
proof -
  let ?cap = "[1, 2, 3, 4, 5, 1, 2, 3, 4, 5 :: int]"
  have a: "repo_patrones servicio_ej ''1001'' = Some patron_ana"
    by (simp add: servicio_ej_def ServicioAutenticacion_def)
  have b: "?cap \<noteq> []" by simp
  have cm: "contar_matches (patron_secuencia_gestos patron_ana) ?cap = 10"
    by code_simp
  have n: "max (length (patron_secuencia_gestos patron_ana)) (length ?cap) = 10"
    by (simp add: patron_ana_def)
  have u: "umbral_similitud_patron servicio_ej = lit_0_9"
    by (simp add: servicio_ej_def ServicioAutenticacion_def)
  show ?thesis
    unfolding validar_patron_forma [OF a b] Let_def cm n u
    by (simp add: redondear_1 lit_0_9_valor patron_ana_def)
qed

text \<open>
  C7. After a successful RFID factor: when the PIN sensor returns a capture whose length is
  not 4, \<open>autenticar_mfa\<close> raises the authentication error of the incomplete PIN capture,
  and the only calls it has made are the lookup of the credential and the PIN capture, so
  the PIN validator has not run and the repository of PINs is untouched. When the PIN
  factor succeeds and the pattern sensor returns a capture whose length is not 10, it
  raises the authentication error of the incomplete pattern capture, and the calls end
  with the pattern capture: the pattern matcher has not run.
\<close>

theorem autenticar_mfa_captura_incompleta:
  assumes "repo_rfid s serial_rfid = Some cred"
    and "cedula_propietario cred = cedula"
    and "esta_vigente cred (date ahora)"
  shows "(length (fst (sensor_pin 4 gesto_cierre)) \<noteq> 4 \<longrightarrow>
            autenticar_mfa s ahora uuid cedula area serial_rfid sensor_pin sensor_patron
                gesto_cierre =
              (Inl (AutenticacionError Pin_incompleto),
               s\<lparr>repo_rfid := (repo_rfid s)
                    (serial_rfid \<mapsto> cred\<lparr>intentos_exitosos := intentos_exitosos cred + 1,
                                         intentos_fallidos := 0,
                                         ultimo_acceso := Some ahora\<rparr>),
                 llamadas := llamadas s @
                    [Obtener_por_serial serial_rfid,
                     Capturar_secuencia Sensor_pin 4 gesto_cierre]\<rparr>))
       \<and> (repo_pins s area = Some pin \<and> pin_estado pin \<noteq> BLOQUEADO
            \<and> fst (sensor_pin 4 gesto_cierre) = pin_secuencia_gestos pin
            \<and> length (pin_secuencia_gestos pin) = 4
            \<and> length (fst (sensor_patron 10 gesto_cierre)) \<noteq> 10 \<longrightarrow>
            autenticar_mfa s ahora uuid cedula area serial_rfid sensor_pin sensor_patron
                gesto_cierre =
              (Inl (AutenticacionError Patron_incompleto),
               s\<lparr>repo_rfid := (repo_rfid s)
                    (serial_rfid \<mapsto> cred\<lparr>intentos_exitosos := intentos_exitosos cred + 1,
                                         intentos_fallidos := 0,
                                         ultimo_acceso := Some ahora\<rparr>),
                 repo_pins := (repo_pins s)(area \<mapsto> pin\<lparr>pin_intentos_fallidos := 0\<rparr>),
                 llamadas := llamadas s @
                    [Obtener_por_serial serial_rfid,
                     Capturar_secuencia Sensor_pin 4 gesto_cierre,
                     Obtener_por_area area,
                     Capturar_secuencia Sensor_patron 10 gesto_cierre]\<rparr>))"
proof (intro conjI impI)
  note rfid = validar_rfid_exito [OF assms]
  assume "length (fst (sensor_pin 4 gesto_cierre)) \<noteq> 4"
  then show "autenticar_mfa s ahora uuid cedula area serial_rfid sensor_pin sensor_patron
                gesto_cierre =
              (Inl (AutenticacionError Pin_incompleto),
               s\<lparr>repo_rfid := (repo_rfid s)
                    (serial_rfid \<mapsto> cred\<lparr>intentos_exitosos := intentos_exitosos cred + 1,
                                         intentos_fallidos := 0,
                                         ultimo_acceso := Some ahora\<rparr>),
                 llamadas := llamadas s @
                    [Obtener_por_serial serial_rfid,
                     Capturar_secuencia Sensor_pin 4 gesto_cierre]\<rparr>)"
    by (simp add: autenticar_mfa_def rfid Let_def llamar_def)
next
  note rfid = validar_rfid_exito [OF assms]
  let ?s2 = "llamar (Capturar_secuencia Sensor_pin 4 gesto_cierre)
               ((llamar (Obtener_por_serial serial_rfid) s)
                  \<lparr>repo_rfid := (repo_rfid s)
                     (serial_rfid \<mapsto> cred\<lparr>intentos_exitosos := intentos_exitosos cred + 1,
                                          intentos_fallidos := 0,
                                          ultimo_acceso := Some ahora\<rparr>)\<rparr>)"
  assume h: "repo_pins s area = Some pin \<and> pin_estado pin \<noteq> BLOQUEADO
            \<and> fst (sensor_pin 4 gesto_cierre) = pin_secuencia_gestos pin
            \<and> length (pin_secuencia_gestos pin) = 4
            \<and> length (fst (sensor_patron 10 gesto_cierre)) \<noteq> 10"
  obtain sec_pat tiempos where sp: "sensor_patron 10 gesto_cierre = (sec_pat, tiempos)"
    by (cases "sensor_patron 10 gesto_cierre")
  have corta: "length sec_pat \<noteq> 10" using h sp by simp
  have p: "repo_pins ?s2 area = Some pin" using h by simp
  have pin: "validar_pin ?s2 area (pin_secuencia_gestos pin) =
               (Inr (), (llamar (Obtener_por_area area) ?s2)
                  \<lparr>repo_pins := (repo_pins ?s2)(area \<mapsto> pin\<lparr>pin_intentos_fallidos := 0\<rparr>)\<rparr>)"
    using p h by (intro validar_pin_exito) simp_all
  show "autenticar_mfa s ahora uuid cedula area serial_rfid sensor_pin sensor_patron
                gesto_cierre =
              (Inl (AutenticacionError Patron_incompleto),
               s\<lparr>repo_rfid := (repo_rfid s)
                    (serial_rfid \<mapsto> cred\<lparr>intentos_exitosos := intentos_exitosos cred + 1,
                                         intentos_fallidos := 0,
                                         ultimo_acceso := Some ahora\<rparr>),
                 repo_pins := (repo_pins s)(area \<mapsto> pin\<lparr>pin_intentos_fallidos := 0\<rparr>),
                 llamadas := llamadas s @
                    [Obtener_por_serial serial_rfid,
                     Capturar_secuencia Sensor_pin 4 gesto_cierre,
                     Obtener_por_area area,
                     Capturar_secuencia Sensor_patron 10 gesto_cierre]\<rparr>)"
    using h corta
    by (simp add: autenticar_mfa_def rfid pin sp Let_def)
qed

theorem autenticar_mfa_captura_incompleta_witness:
  "autenticar_mfa servicio_ej hoy_ej ''u-1'' ''1001'' ''LAB'' ''T1''
       (\<lambda>n g. ([1, 2, 3], None)) (\<lambda>n g. ([], None)) (Some 0) =
     (Inl (AutenticacionError Pin_incompleto),
      servicio_ej
        \<lparr>repo_rfid := [''T1'' \<mapsto> cred_ana\<lparr>intentos_exitosos := 1,
                                        ultimo_acceso := Some hoy_ej\<rparr>],
         llamadas := [Obtener_por_serial ''T1'',
                      Capturar_secuencia Sensor_pin 4 (Some 0)]\<rparr>)
   \<and> autenticar_mfa servicio_ej hoy_ej ''u-1'' ''1001'' ''LAB'' ''T1''
       (\<lambda>n g. ([1, 2, 3, 4], None)) (\<lambda>n g. ([1, 2, 3, 4, 5, 1, 2], None)) (Some 0) =
     (Inl (AutenticacionError Patron_incompleto),
      servicio_ej
        \<lparr>repo_rfid := [''T1'' \<mapsto> cred_ana\<lparr>intentos_exitosos := 1,
                                        ultimo_acceso := Some hoy_ej\<rparr>],
         llamadas := [Obtener_por_serial ''T1'',
                      Capturar_secuencia Sensor_pin 4 (Some 0),
                      Obtener_por_area ''LAB'',
                      Capturar_secuencia Sensor_patron 10 (Some 0)]\<rparr>)"
proof -
  have a: "repo_rfid servicio_ej ''T1'' = Some cred_ana"
    by (simp add: servicio_ej_def ServicioAutenticacion_def)
  have b: "cedula_propietario cred_ana = ''1001''"
    by (simp add: cred_ana_def)
  have c: "esta_vigente cred_ana (date hoy_ej)"
    by (simp add: esta_vigente_def cred_ana_def hoy_ej_def date_def)
  have p: "repo_pins servicio_ej ''LAB'' = Some pin_lab \<and> pin_estado pin_lab \<noteq> BLOQUEADO
           \<and> fst (([1, 2, 3, 4], None) :: int list \<times> flotante list option)
               = pin_secuencia_gestos pin_lab
           \<and> length (pin_secuencia_gestos pin_lab) = 4
           \<and> length (fst (([1, 2, 3, 4, 5, 1, 2], None) :: int list \<times> flotante list option))
               \<noteq> 10"
    by (simp add: servicio_ej_def ServicioAutenticacion_def pin_lab_def)
  have r: "repo_rfid servicio_ej = [''T1'' \<mapsto> cred_ana]"
       "repo_pins servicio_ej = [''LAB'' \<mapsto> pin_lab]"
       "llamadas servicio_ej = []"
    by (simp_all add: servicio_ej_def ServicioAutenticacion_def)
  have q: "cred_ana\<lparr>intentos_exitosos := intentos_exitosos cred_ana + 1,
                    intentos_fallidos := 0, ultimo_acceso := Some hoy_ej\<rparr>
             = cred_ana\<lparr>intentos_exitosos := 1, ultimo_acceso := Some hoy_ej\<rparr>"
       "pin_lab\<lparr>pin_intentos_fallidos := 0\<rparr> = pin_lab"
    by (simp_all add: cred_ana_def pin_lab_def)
  have s0: "servicio_ej\<lparr>repo_pins := [''LAB'' \<mapsto> pin_lab]\<rparr> = servicio_ej"
    by (simp add: servicio_ej_def ServicioAutenticacion_def)
  from autenticar_mfa_captura_incompleta [OF a b c,
         of "\<lambda>n g. ([1, 2, 3], None)" "Some 0" "''u-1''" "''LAB''" "\<lambda>n g. ([], None)" pin_lab]
  have r1: "autenticar_mfa servicio_ej hoy_ej ''u-1'' ''1001'' ''LAB'' ''T1''
       (\<lambda>n g. ([1, 2, 3], None)) (\<lambda>n g. ([], None)) (Some 0) =
     (Inl (AutenticacionError Pin_incompleto),
      servicio_ej
        \<lparr>repo_rfid := [''T1'' \<mapsto> cred_ana\<lparr>intentos_exitosos := 1,
                                        ultimo_acceso := Some hoy_ej\<rparr>],
         llamadas := [Obtener_por_serial ''T1'',
                      Capturar_secuencia Sensor_pin 4 (Some 0)]\<rparr>)"
    by (simp add: r q)
  from p autenticar_mfa_captura_incompleta [OF a b c,
         of "\<lambda>n g. ([1, 2, 3, 4], None)" "Some 0" "''u-1''" "''LAB''"
            "\<lambda>n g. ([1, 2, 3, 4, 5, 1, 2], None)" pin_lab]
  have r2: "autenticar_mfa servicio_ej hoy_ej ''u-1'' ''1001'' ''LAB'' ''T1''
       (\<lambda>n g. ([1, 2, 3, 4], None)) (\<lambda>n g. ([1, 2, 3, 4, 5, 1, 2], None)) (Some 0) =
     (Inl (AutenticacionError Patron_incompleto),
      servicio_ej
        \<lparr>repo_rfid := [''T1'' \<mapsto> cred_ana\<lparr>intentos_exitosos := 1,
                                        ultimo_acceso := Some hoy_ej\<rparr>],
         llamadas := [Obtener_por_serial ''T1'',
                      Capturar_secuencia Sensor_pin 4 (Some 0),
                      Obtener_por_area ''LAB'',
                      Capturar_secuencia Sensor_patron 10 (Some 0)]\<rparr>)"
    by (simp add: r q s0)
  from r1 r2 show ?thesis by (rule conjI)
qed

text \<open>
  C1. When the three factors succeed (the credential belongs to the user and is valid at
  the evaluation time, the PIN capture has 4 elements and is the reference of a PIN that
  is not blocked, the pattern capture has 10 elements and the pattern matcher accepts it),
  \<open>autenticar_mfa\<close> returns the access record with the given user, the given area, the
  evaluation time \<open>ahora\<close> (the one the RFID validator wrote as last access) and an empty
  \<open>registro_exitoso_id\<close>. Its calls end with \<open>indicar_exito\<close>, \<open>abrir_puerta\<close> and
  \<open>agregar\<close> of that record, each once and in this order, and the record is the one
  added to the repository of access records.
\<close>

theorem autenticar_mfa_exito:
  assumes "repo_rfid s serial_rfid = Some cred"
    and "cedula_propietario cred = cedula"
    and "esta_vigente cred (date ahora)"
    and "repo_pins s area = Some pin"
    and "pin_estado pin \<noteq> BLOQUEADO"
    and "fst (sensor_pin 4 gesto_cierre) = pin_secuencia_gestos pin"
    and "length (pin_secuencia_gestos pin) = 4"
    and "sensor_patron 10 gesto_cierre = (sec_pat, tiempos)"
    and "length sec_pat = 10"
    and "fst (validar_patron s cedula sec_pat tiempos) = Inr ()"
  shows "autenticar_mfa s ahora uuid cedula area serial_rfid sensor_pin sensor_patron
             gesto_cierre =
           (let acceso = \<lparr>id_acceso = uuid, cedula_usuario = cedula, id_area = area,
                          fecha_entrada = ahora, registro_exitoso_id = ''''\<rparr>
            in (Inr acceso,
                s\<lparr>repo_rfid := (repo_rfid s)
                     (serial_rfid \<mapsto> cred\<lparr>intentos_exitosos := intentos_exitosos cred + 1,
                                          intentos_fallidos := 0,
                                          ultimo_acceso := Some ahora\<rparr>),
                  repo_pins := (repo_pins s)(area \<mapsto> pin\<lparr>pin_intentos_fallidos := 0\<rparr>),
                  repo_accesos := repo_accesos s @ [acceso],
                  llamadas := llamadas s @
                     [Obtener_por_serial serial_rfid,
                      Capturar_secuencia Sensor_pin 4 gesto_cierre,
                      Obtener_por_area area,
                      Capturar_secuencia Sensor_patron 10 gesto_cierre,
                      Obtener_por_usuario cedula,
                      Indicar_exito, Abrir_puerta, Agregar acceso]\<rparr>))"
proof -
  let ?s1 = "(llamar (Obtener_por_serial serial_rfid) s)
               \<lparr>repo_rfid := (repo_rfid s)
                  (serial_rfid \<mapsto> cred\<lparr>intentos_exitosos := intentos_exitosos cred + 1,
                                       intentos_fallidos := 0,
                                       ultimo_acceso := Some ahora\<rparr>)\<rparr>"
  let ?s2 = "llamar (Capturar_secuencia Sensor_pin 4 gesto_cierre) ?s1"
  let ?s3 = "(llamar (Obtener_por_area area) ?s2)
               \<lparr>repo_pins := (repo_pins s)(area \<mapsto> pin\<lparr>pin_intentos_fallidos := 0\<rparr>)\<rparr>"
  let ?s4 = "llamar (Capturar_secuencia Sensor_patron 10 gesto_cierre) ?s3"
  have rfid: "validar_rfid s serial_rfid cedula ahora = (Inr (), ?s1)"
    using assms(1-3) by (rule validar_rfid_exito)
  have "repo_pins ?s2 area = Some pin" using assms(4) by simp
  then have pin: "validar_pin ?s2 area (pin_secuencia_gestos pin) = (Inr (), ?s3)"
    using assms(5) validar_pin_exito [of ?s2 area pin "pin_secuencia_gestos pin"] by simp
  have "fst (validar_patron ?s4 cedula sec_pat tiempos)
          = fst (validar_patron s cedula sec_pat tiempos)"
    by (rule validar_patron_resultado_cong) simp_all
  then have "fst (validar_patron ?s4 cedula sec_pat tiempos) = Inr ()"
    using assms(10) by simp
  moreover have "snd (validar_patron ?s4 cedula sec_pat tiempos)
                   = llamar (Obtener_por_usuario cedula) ?s4"
    by (rule validar_patron_estado)
  ultimately have patron: "validar_patron ?s4 cedula sec_pat tiempos
                             = (Inr (), llamar (Obtener_por_usuario cedula) ?s4)"
    by (simp add: prod_eq_iff)
  show ?thesis
    using assms(6,7,9)
    by (simp add: autenticar_mfa_def rfid pin assms(8) patron Let_def)
qed

theorem autenticar_mfa_exito_witness:
  "autenticar_mfa servicio_ej hoy_ej ''u-1'' ''1001'' ''LAB'' ''T1''
       (\<lambda>n g. ([1, 2, 3, 4], None)) (\<lambda>n g. ([1, 2, 3, 4, 5, 1, 2, 3, 4, 5], None)) (Some 0) =
     (Inr \<lparr>id_acceso = ''u-1'', cedula_usuario = ''1001'', id_area = ''LAB'',
            fecha_entrada = hoy_ej, registro_exitoso_id = ''''\<rparr>,
      servicio_ej
        \<lparr>repo_rfid := [''T1'' \<mapsto> cred_ana\<lparr>intentos_exitosos := 1,
                                        ultimo_acceso := Some hoy_ej\<rparr>],
         repo_accesos := [\<lparr>id_acceso = ''u-1'', cedula_usuario = ''1001'', id_area = ''LAB'',
                           fecha_entrada = hoy_ej, registro_exitoso_id = ''''\<rparr>],
         llamadas := [Obtener_por_serial ''T1'',
                      Capturar_secuencia Sensor_pin 4 (Some 0),
                      Obtener_por_area ''LAB'',
                      Capturar_secuencia Sensor_patron 10 (Some 0),
                      Obtener_por_usuario ''1001'',
                      Indicar_exito, Abrir_puerta,
                      Agregar \<lparr>id_acceso = ''u-1'', cedula_usuario = ''1001'',
                               id_area = ''LAB'', fecha_entrada = hoy_ej,
                               registro_exitoso_id = ''''\<rparr>]\<rparr>)"
proof -
  let ?cap = "[1, 2, 3, 4, 5, 1, 2, 3, 4, 5 :: int]"
  let ?sensor_pin = "(\<lambda>n g. ([1, 2, 3, 4], None)) :: sensor"
  let ?sensor_patron = "(\<lambda>n g. (?cap, None)) :: sensor"
  have a: "repo_rfid servicio_ej ''T1'' = Some cred_ana"
    by (simp add: servicio_ej_def ServicioAutenticacion_def)
  have b: "cedula_propietario cred_ana = ''1001''"
    by (simp add: cred_ana_def)
  have c: "esta_vigente cred_ana (date hoy_ej)"
    by (simp add: esta_vigente_def cred_ana_def hoy_ej_def date_def)
  have d: "repo_pins servicio_ej ''LAB'' = Some pin_lab"
    by (simp add: servicio_ej_def ServicioAutenticacion_def)
  have e: "pin_estado pin_lab \<noteq> BLOQUEADO"
    by (simp add: pin_lab_def)
  have f: "fst (?sensor_pin 4 (Some 0)) = pin_secuencia_gestos pin_lab"
    by (simp add: pin_lab_def)
  have g: "length (pin_secuencia_gestos pin_lab) = 4"
    by (simp add: pin_lab_def)
  have h: "?sensor_patron 10 (Some 0) = (?cap, None)"
    by simp
  have i: "length ?cap = 10" by simp
  have j: "fst (validar_patron servicio_ej ''1001'' ?cap None) = Inr ()"
    by (simp only: validar_patron_ana_exacto fst_conv)
  have r: "repo_rfid servicio_ej = [''T1'' \<mapsto> cred_ana]"
       "repo_pins servicio_ej = [''LAB'' \<mapsto> pin_lab]"
       "repo_accesos servicio_ej = []"
       "llamadas servicio_ej = []"
    by (simp_all add: servicio_ej_def ServicioAutenticacion_def)
  have q: "cred_ana\<lparr>intentos_exitosos := intentos_exitosos cred_ana + 1,
                    intentos_fallidos := 0, ultimo_acceso := Some hoy_ej\<rparr>
             = cred_ana\<lparr>intentos_exitosos := 1, ultimo_acceso := Some hoy_ej\<rparr>"
       "pin_lab\<lparr>pin_intentos_fallidos := 0\<rparr> = pin_lab"
    by (simp_all add: cred_ana_def pin_lab_def)
  have s0: "servicio_ej\<lparr>repo_pins := [''LAB'' \<mapsto> pin_lab]\<rparr> = servicio_ej"
    by (simp add: servicio_ej_def ServicioAutenticacion_def)
  show ?thesis
    using autenticar_mfa_exito [OF a b c d e f g h i j, of "''u-1''"]
    by (simp add: Let_def r q s0)
qed

end
